theory Spec2Isabelle
  imports Main "HOL-Library.Word" "HOL-Library.Char_ord" "HOL-Library.List_Lexorder"
    "HOL-Library.Multiset"
begin

section \<open>Domain model (internal/domain/models.go)\<close>

text \<open>
  A \<open>uuid.UUID\<close> is sixteen bytes, read here as one 128-bit word with byte 0 the most
  significant; \<open>uuid.Nil\<close> is the all-zero value. Go strings are byte sequences: a
  \<open>string\<close> is a list of 8-bit characters and \<open>length\<close> is Go's \<open>len\<close>.
  Timestamps are integers (ticks of the clock that produced them).
\<close>

type_synonym uuid = "128 word"
type_synonym time = int

definition uuid_Nil :: uuid where
  "uuid_Nil = 0"

record User =
  UserID :: uuid
  Username :: string
  TeamID :: uuid
  TeamName :: string
  IsActive :: bool

record TeamMember =
  m_UserID :: uuid
  m_Username :: string
  m_IsActive :: bool

record Team =
  t_TeamID :: uuid
  t_TeamName :: string
  Members :: "TeamMember list"

record PullRequest =
  PullRequestID :: uuid
  PullRequestName :: string
  AuthorID :: uuid
  Status :: string
  CreatedAt :: time
  MergedAt :: "time option"

record PullRequestWithReviewers =
  w_PullRequestID :: uuid
  w_PullRequestName :: string
  w_AuthorID :: uuid
  w_Status :: string
  AssignedReviewers :: "uuid list"
  w_CreatedAt :: time
  w_MergedAt :: "time option"

record PullRequestShort =
  s_PullRequestID :: uuid
  s_PullRequestName :: string
  s_AuthorID :: uuid
  s_Status :: string

definition StatusOpen :: string where
  "StatusOpen = ''open''"

definition StatusMerged :: string where
  "StatusMerged = ''merged''"

section \<open>Library functions the validator calls\<close>

text \<open>
  \<open>strings.TrimSpace\<close> removes leading and trailing white space as \<open>unicode.IsSpace\<close>
  defines it: the six ASCII characters tab, line feed, vertical tab, form feed, carriage
  return and space; U+0085 and U+00A0 (two bytes in UTF-8); and U+1680, U+2000..U+200A,
  U+2028, U+2029, U+202F, U+205F and U+3000 (three bytes in UTF-8).
\<close>

definition asciiSpace :: "char \<Rightarrow> bool" where
  "asciiSpace c \<longleftrightarrow> (let n = (of_char c :: nat) in (9 \<le> n \<and> n \<le> 13) \<or> n = 32)"

definition space2 :: "char \<Rightarrow> char \<Rightarrow> bool" where
  "space2 a b \<longleftrightarrow>
     (of_char a :: nat) = 0xC2 \<and> ((of_char b :: nat) = 0x85 \<or> (of_char b :: nat) = 0xA0)"

definition space3 :: "char \<Rightarrow> char \<Rightarrow> char \<Rightarrow> bool" where
  "space3 a b c \<longleftrightarrow>
     (let x = (of_char a :: nat); y = (of_char b :: nat); z = (of_char c :: nat) in
        (x = 0xE1 \<and> y = 0x9A \<and> z = 0x80) \<or>
        (x = 0xE2 \<and> y = 0x80 \<and> ((0x80 \<le> z \<and> z \<le> 0x8A) \<or> z = 0xA8 \<or> z = 0xA9 \<or> z = 0xAF)) \<or>
        (x = 0xE2 \<and> y = 0x81 \<and> z = 0x9F) \<or>
        (x = 0xE3 \<and> y = 0x80 \<and> z = 0x80))"

fun trimLeft :: "string \<Rightarrow> string" where
  "trimLeft [] = []"
| "trimLeft [a] = (if asciiSpace a then [] else [a])"
| "trimLeft [a, b] =
     (if asciiSpace a then trimLeft [b] else if space2 a b then [] else [a, b])"
| "trimLeft (a # b # c # r) =
     (if asciiSpace a then trimLeft (b # c # r)
      else if space2 a b then trimLeft (c # r)
      else if space3 a b c then trimLeft r
      else a # b # c # r)"

text \<open>The same scan from the end; the argument is the reversed string.\<close>

fun trimLeftRev :: "string \<Rightarrow> string" where
  "trimLeftRev [] = []"
| "trimLeftRev [a] = (if asciiSpace a then [] else [a])"
| "trimLeftRev [b, a] =
     (if asciiSpace b then trimLeftRev [a] else if space2 a b then [] else [b, a])"
| "trimLeftRev (c # b # a # r) =
     (if asciiSpace c then trimLeftRev (b # a # r)
      else if space2 b c then trimLeftRev (a # r)
      else if space3 a b c then trimLeftRev r
      else c # b # a # r)"

definition TrimSpace :: "string \<Rightarrow> string" where
  "TrimSpace s = rev (trimLeftRev (rev (trimLeft s)))"

text \<open>
  \<open>uuid.UUID.String\<close>: thirty-two lower-case hexadecimal digits in groups of
  8-4-4-4-12, the form \<open>%s\<close> prints.
\<close>

definition hexDigit :: "nat \<Rightarrow> char" where
  "hexDigit n = ''0123456789abcdef'' ! (n mod 16)"

definition uuid_hex :: "uuid \<Rightarrow> string" where
  "uuid_hex u = map (\<lambda>i. hexDigit (unat (drop_bit (4 * (31 - i)) u) mod 16)) [0..<32]"

definition uuid_String :: "uuid \<Rightarrow> string" where
  "uuid_String u =
     (let h = uuid_hex u in
      take 8 h @ ''-'' @ take 4 (drop 8 h) @ ''-'' @ take 4 (drop 12 h) @ ''-'' @
      take 4 (drop 16 h) @ ''-'' @ drop 20 h)"

section \<open>Validator (internal/domain, the file of \<open>ValidateTeam\<close>)\<close>

text \<open>A Go \<open>error\<close> is its message; \<open>None\<close> is the \<open>nil\<close> error.\<close>

type_synonym error = string

definition ValidatePRStatus :: "string \<Rightarrow> error option" where
  "ValidatePRStatus status =
     (if status \<noteq> StatusOpen \<and> status \<noteq> StatusMerged
      then Some (''invalid PR status: '' @ status @ '', must be OPEN or MERGED'')
      else None)"

definition ValidateTeamMember :: "TeamMember \<Rightarrow> error option" where
  "ValidateTeamMember member =
     (if m_UserID member = uuid_Nil then Some ''user_id cannot be nil UUID''
      else if TrimSpace (m_Username member) = [] then Some ''username cannot be empty''
      else if length (m_Username member) > 255
        then Some ''username too long (max 255 characters)''
      else None)"

text \<open>The loop of \<open>ValidateTeam\<close> over the members, with the map \<open>seen\<close>.\<close>

fun validateMembers :: "(uuid \<Rightarrow> bool) \<Rightarrow> TeamMember list \<Rightarrow> error option" where
  "validateMembers seen [] = None"
| "validateMembers seen (member # rest) =
     (case ValidateTeamMember member of
        Some err \<Rightarrow> Some err
      | None \<Rightarrow>
          if seen (m_UserID member)
          then Some (''duplicate user_id in team: '' @ uuid_String (m_UserID member))
          else validateMembers (seen(m_UserID member := True)) rest)"

definition ValidateTeam :: "Team \<Rightarrow> error option" where
  "ValidateTeam team =
     (if TrimSpace (t_TeamName team) = [] then Some ''team_name cannot be empty''
      else if length (t_TeamName team) > 255
        then Some ''team_name too long (max 255 characters)''
      else if length (Members team) = 0 then Some ''team must have at least one member''
      else validateMembers (\<lambda>_. False) (Members team))"

definition ValidatePullRequest :: "PullRequest \<Rightarrow> error option" where
  "ValidatePullRequest pr =
     (if PullRequestID pr = uuid_Nil then Some ''pull_request_id cannot be nil UUID''
      else if TrimSpace (PullRequestName pr) = [] then Some ''pull_request_name cannot be empty''
      else if length (PullRequestName pr) > 255
        then Some ''pull_request_name too long (max 255 characters)''
      else if AuthorID pr = uuid_Nil then Some ''author_id cannot be nil UUID''
      else ValidatePRStatus (Status pr))"

definition ValidateReviewersCount :: "uuid list \<Rightarrow> error option" where
  "ValidateReviewersCount reviewers =
     (if length reviewers < 2 then Some ''not enough reviewers: minimum 2 required''
      else if length reviewers > 2 then Some ''cannot assign more than 2 reviewers''
      else None)"

section \<open>Statistics records (internal/domain/stats.go)\<close>

text \<open>
  A \<open>float64\<close> is kept as its 64 bits: the service stores and returns
  \<open>AvgMergeTimeHours\<close> and computes nothing with it.
\<close>

type_synonym float64 = "64 word"

record UserAssignmentStats =
  us_UserID :: uuid
  us_Username :: string
  us_TeamName :: string
  TotalAssignments :: int
  OpenAssignments :: int
  MergedAssignments :: int

record PRStats =
  TotalOpen :: int
  TotalMerged :: int
  TotalPRs :: int
  AvgMergeTimeHours :: float64

record Statistics =
  st_PRStats :: PRStats
  UserStats :: "UserAssignmentStats list"
  TotalUsers :: int
  TotalTeams :: int
  ActiveUsers :: int

section \<open>The pseudo-random source (\<open>math/rand\<close>)\<close>

text \<open>
  The service holds a \<open>*rand.Rand\<close>. It is a generator state \<open>'g\<close> together with the
  generator's bounded draw: \<open>rnd n g\<close> is the value drawn below \<open>n\<close> and the state after
  the draw. \<open>Intn\<close> returns a value in \<open>[0, n)\<close>, which the reduction modulo \<open>n\<close> makes
  true of every \<open>rnd\<close>; it panics for \<open>n \<le> 0\<close>, and both callers pass a positive \<open>n\<close>
  (\<open>ReassignReviewer\<close> behind its test of \<open>len(candidates) == 0\<close>, \<open>Shuffle\<close> with
  \<open>i + 1\<close>).
\<close>

type_synonym 'g rand = "nat \<Rightarrow> 'g \<Rightarrow> nat \<times> 'g"

definition Intn :: "'g rand \<Rightarrow> nat \<Rightarrow> 'g \<Rightarrow> nat \<times> 'g" where
  "Intn rnd n g = (case rnd n g of (v, g') \<Rightarrow> (v mod n, g'))"

text \<open>
  \<open>Shuffle(n, swap)\<close> is the library's Fisher-Yates loop
  \<^verbatim>\<open>for i := n - 1; i > 0; i-- { j := int(r.int31n(int32(i + 1))); swap(i, j) }\<close>
  (positions above \<open>2^31 - 2\<close> are drawn with \<open>Int63n\<close>; every draw below a bound is
  the one bounded draw here) and \<open>selectReviewers\<close> passes the swap
  \<^verbatim>\<open>candidates[i], candidates[j] = candidates[j], candidates[i]\<close>.
\<close>

definition swap :: "nat \<Rightarrow> nat \<Rightarrow> 'a list \<Rightarrow> 'a list" where
  "swap i j xs = xs[i := xs ! j, j := xs ! i]"

fun shuffleFrom :: "'g rand \<Rightarrow> nat \<Rightarrow> 'a list \<Rightarrow> 'g \<Rightarrow> 'a list \<times> 'g" where
  "shuffleFrom rnd 0 xs g = (xs, g)"
| "shuffleFrom rnd (Suc i) xs g =
     (case Intn rnd (Suc i + 1) g of (j, g') \<Rightarrow> shuffleFrom rnd i (swap (Suc i) j xs) g')"

definition Shuffle :: "'g rand \<Rightarrow> 'a list \<Rightarrow> 'g \<Rightarrow> 'a list \<times> 'g" where
  "Shuffle rnd xs g = shuffleFrom rnd (length xs - 1) xs g"

section \<open>The repository interface (internal/repository)\<close>

text \<open>
  Every method takes the state \<open>'s\<close> of the store and returns its result with the state
  after the call. A method that returns \<open>(value, error)\<close> yields \<open>Inl\<close> of the error or
  \<open>Inr\<close> of the value; a method that returns only an error yields \<open>Some\<close> of it or
  \<open>None\<close>.
\<close>

record 's RepositoryInterface =
  r_CreateTeam :: "Team \<Rightarrow> 's \<Rightarrow> error option \<times> 's"
  r_GetTeamByName :: "string \<Rightarrow> 's \<Rightarrow> (error + Team) \<times> 's"
  r_TeamExists :: "string \<Rightarrow> 's \<Rightarrow> (error + bool) \<times> 's"
  r_GetUserByID :: "uuid \<Rightarrow> 's \<Rightarrow> (error + User) \<times> 's"
  r_GetTeamMembers :: "string \<Rightarrow> 's \<Rightarrow> (error + User list) \<times> 's"
  r_SetUserActive :: "uuid \<Rightarrow> bool \<Rightarrow> 's \<Rightarrow> error option \<times> 's"
  r_CreatePR :: "PullRequest \<Rightarrow> uuid list \<Rightarrow> 's \<Rightarrow> error option \<times> 's"
  r_GetPRByID :: "uuid \<Rightarrow> 's \<Rightarrow> (error + PullRequestWithReviewers) \<times> 's"
  r_PRExists :: "uuid \<Rightarrow> 's \<Rightarrow> (error + bool) \<times> 's"
  r_UpdatePRStatus :: "uuid \<Rightarrow> string \<Rightarrow> time option \<Rightarrow> 's \<Rightarrow> error option \<times> 's"
  r_ReplaceReviewer :: "uuid \<Rightarrow> uuid \<Rightarrow> uuid \<Rightarrow> 's \<Rightarrow> error option \<times> 's"
  r_GetPRsByReviewer :: "uuid \<Rightarrow> 's \<Rightarrow> (error + PullRequestShort list) \<times> 's"

record 's StatsRepository =
  r_GetUserAssignmentStats :: "'s \<Rightarrow> (error + UserAssignmentStats list) \<times> 's"
  r_GetPRStats :: "'s \<Rightarrow> (error + PRStats) \<times> 's"
  r_GetTotalUsers :: "'s \<Rightarrow> (error + int) \<times> 's"
  r_GetTotalTeams :: "'s \<Rightarrow> (error + int) \<times> 's"
  r_GetActiveUsers :: "'s \<Rightarrow> (error + int) \<times> 's"

section \<open>The service (internal/service, the file of \<open>ReviewerService\<close>)\<close>

text \<open>
  A service method ends by returning an error, by returning a value, or in a panic of
  the Go runtime.
\<close>

datatype failure = Error error | Panic string

definition minInt :: "int \<Rightarrow> int \<Rightarrow> int" where
  "minInt a b = (if a < b then a else b)"

text \<open>
  \<open>selectReviewers\<close>. \<open>make([]uuid.UUID, count)\<close> panics for a negative \<open>count\<close>;
  that is the result \<open>None\<close>. The final loop copies the ids of the first \<open>count\<close>
  candidates.
\<close>

definition selectReviewers ::
  "'g rand \<Rightarrow> User list \<Rightarrow> uuid \<Rightarrow> int \<Rightarrow> 'g \<Rightarrow> uuid list option \<times> 'g" where
  "selectReviewers rnd members excludeID maxCount g =
     (let candidates = filter (\<lambda>m. UserID m \<noteq> excludeID \<and> IsActive m) members;
          count = minInt maxCount (int (length candidates))
      in if count = 0 then (Some [], g)
         else (case Shuffle rnd candidates g of
                 (shuffled, g') \<Rightarrow>
                   if count < 0 then (None, g')
                   else (Some (map UserID (take (nat count) shuffled)), g')))"

definition CreateTeam :: "'s RepositoryInterface \<Rightarrow> Team \<Rightarrow> 's \<Rightarrow> failure option \<times> 's" where
  "CreateTeam repo team s =
     (case ValidateTeam team of
        Some err \<Rightarrow> (Some (Error (''validation error: '' @ err)), s)
      | None \<Rightarrow>
          (case r_TeamExists repo (t_TeamName team) s of
             (Inl err, s1) \<Rightarrow> (Some (Error err), s1)
           | (Inr exists, s1) \<Rightarrow>
               if exists then (Some (Error ''TEAM_EXISTS''), s1)
               else (case r_CreateTeam repo team s1 of
                       (Some err, s2) \<Rightarrow> (Some (Error err), s2)
                     | (None, s2) \<Rightarrow> (None, s2))))"

definition GetTeam :: "'s RepositoryInterface \<Rightarrow> string \<Rightarrow> 's \<Rightarrow> (failure + Team) \<times> 's" where
  "GetTeam repo teamName s =
     (if teamName = [] then (Inl (Error ''team_name cannot be empty''), s)
      else (case r_GetTeamByName repo teamName s of
              (Inl err, s1) \<Rightarrow> (Inl (Error err), s1)
            | (Inr team, s1) \<Rightarrow> (Inr team, s1)))"

definition SetUserActive ::
  "'s RepositoryInterface \<Rightarrow> uuid \<Rightarrow> bool \<Rightarrow> 's \<Rightarrow> (failure + User) \<times> 's" where
  "SetUserActive repo userID isActive s =
     (if userID = uuid_Nil then (Inl (Error ''user_id cannot be nil UUID''), s)
      else (case r_SetUserActive repo userID isActive s of
              (Some err, s1) \<Rightarrow> (Inl (Error (''failed to set user active: '' @ err)), s1)
            | (None, s1) \<Rightarrow>
                (case r_GetUserByID repo userID s1 of
                   (Inl err, s2) \<Rightarrow> (Inl (Error err), s2)
                 | (Inr user, s2) \<Rightarrow> (Inr user, s2))))"

text \<open>
  \<open>CreatePR\<close> builds the pull request with the zero \<open>CreatedAt\<close> and a nil
  \<open>MergedAt\<close>. The generator state travels with the state of the store.
\<close>

definition CreatePR ::
  "'s RepositoryInterface \<Rightarrow> 'g rand \<Rightarrow> uuid \<Rightarrow> string \<Rightarrow> uuid \<Rightarrow> 's \<times> 'g \<Rightarrow>
     (failure + PullRequestWithReviewers) \<times> 's \<times> 'g" where
  "CreatePR repo rnd prID prName authorID sg =
     (case sg of (s, g) \<Rightarrow>
      let pr = \<lparr>PullRequestID = prID, PullRequestName = prName, AuthorID = authorID,
                Status = StatusOpen, CreatedAt = 0, MergedAt = None\<rparr>
      in
      (case ValidatePullRequest pr of
         Some err \<Rightarrow> (Inl (Error (''validation error: '' @ err)), s, g)
       | None \<Rightarrow>
      (case r_PRExists repo prID s of
         (Inl err, s1) \<Rightarrow> (Inl (Error err), s1, g)
       | (Inr exists, s1) \<Rightarrow>
      if exists then (Inl (Error ''PR_EXISTS''), s1, g)
      else
      (case r_GetUserByID repo authorID s1 of
         (Inl err, s2) \<Rightarrow> (Inl (Error (''failed to get author: '' @ err)), s2, g)
       | (Inr author, s2) \<Rightarrow>
      (case r_GetTeamMembers repo (TeamName author) s2 of
         (Inl err, s3) \<Rightarrow> (Inl (Error (''failed to get team members: '' @ err)), s3, g)
       | (Inr members, s3) \<Rightarrow>
      (case selectReviewers rnd members authorID 2 g of
         (None, g') \<Rightarrow> (Inl (Panic ''makeslice: len out of range''), s3, g')
       | (Some reviewers, g') \<Rightarrow>
      (case ValidateReviewersCount reviewers of
         Some err \<Rightarrow> (Inl (Error (''validation error: '' @ err)), s3, g')
       | None \<Rightarrow>
      (case r_CreatePR repo pr reviewers s3 of
         (Some err, s4) \<Rightarrow> (Inl (Error (''failed to create PR: '' @ err)), s4, g')
       | (None, s4) \<Rightarrow>
      (case r_GetPRByID repo prID s4 of
         (Inl err, s5) \<Rightarrow> (Inl (Error err), s5, g')
       | (Inr created, s5) \<Rightarrow> (Inr created, s5, g'))))))))))"

text \<open>\<open>MergePR\<close>; \<open>now\<close> is what \<open>time.Now()\<close> returns.\<close>

definition MergePR ::
  "'s RepositoryInterface \<Rightarrow> time \<Rightarrow> uuid \<Rightarrow> 's \<Rightarrow> (failure + PullRequestWithReviewers) \<times> 's" where
  "MergePR repo now prID s =
     (if prID = uuid_Nil then (Inl (Error ''pull_request_id cannot be nil UUID''), s)
      else
      (case r_GetPRByID repo prID s of
         (Inl err, s1) \<Rightarrow> (Inl (Error (''failed to get PR: '' @ err)), s1)
       | (Inr pr, s1) \<Rightarrow>
      if w_Status pr = StatusMerged then (Inr pr, s1)
      else
      (case r_UpdatePRStatus repo prID StatusMerged (Some now) s1 of
         (Some err, s2) \<Rightarrow> (Inl (Error (''failed to merge PR: '' @ err)), s2)
       | (None, s2) \<Rightarrow>
      (case r_GetPRByID repo prID s2 of
         (Inl err, s3) \<Rightarrow> (Inl (Error err), s3)
       | (Inr merged, s3) \<Rightarrow> (Inr merged, s3)))))"

text \<open>
  The candidates of \<open>ReassignReviewer\<close>: the map \<open>excludeIDs\<close> holds the author and the
  assigned reviewers, and the loop keeps the active members outside it.
\<close>

definition excludeIDs :: "PullRequestWithReviewers \<Rightarrow> uuid \<Rightarrow> bool" where
  "excludeIDs pr =
     foldl (\<lambda>m r. m(r := True)) ((\<lambda>_. False)(w_AuthorID pr := True)) (AssignedReviewers pr)"

definition reassignCandidates :: "PullRequestWithReviewers \<Rightarrow> User list \<Rightarrow> User list" where
  "reassignCandidates pr members =
     filter (\<lambda>m. \<not> excludeIDs pr (UserID m) \<and> IsActive m) members"

definition ReassignReviewer ::
  "'s RepositoryInterface \<Rightarrow> 'g rand \<Rightarrow> uuid \<Rightarrow> uuid \<Rightarrow> 's \<times> 'g \<Rightarrow>
     (failure + PullRequestWithReviewers \<times> uuid) \<times> 's \<times> 'g" where
  "ReassignReviewer repo rnd prID oldUserID sg =
     (case sg of (s, g) \<Rightarrow>
      if prID = uuid_Nil \<or> oldUserID = uuid_Nil
      then (Inl (Error ''IDs cannot be nil UUID''), s, g)
      else
      (case r_GetPRByID repo prID s of
         (Inl err, s1) \<Rightarrow> (Inl (Error (''failed to get PR: '' @ err)), s1, g)
       | (Inr pr, s1) \<Rightarrow>
      if w_Status pr = StatusMerged then (Inl (Error ''PR_MERGED''), s1, g)
      else if \<not> list_ex (\<lambda>r. r = oldUserID) (AssignedReviewers pr)
      then (Inl (Error ''NOT_ASSIGNED''), s1, g)
      else
      (case r_GetUserByID repo oldUserID s1 of
         (Inl err, s2) \<Rightarrow> (Inl (Error (''failed to get old user: '' @ err)), s2, g)
       | (Inr oldUser, s2) \<Rightarrow>
      (case r_GetTeamMembers repo (TeamName oldUser) s2 of
         (Inl err, s3) \<Rightarrow> (Inl (Error (''failed to get team members: '' @ err)), s3, g)
       | (Inr members, s3) \<Rightarrow>
      let candidates = reassignCandidates pr members
      in if length candidates = 0 then (Inl (Error ''NO_CANDIDATE''), s3, g)
      else
      (case Intn rnd (length candidates) g of (i, g') \<Rightarrow>
      let newReviewer = candidates ! i
      in (case r_ReplaceReviewer repo prID oldUserID (UserID newReviewer) s3 of
            (Some err, s4) \<Rightarrow> (Inl (Error (''failed to replace reviewer: '' @ err)), s4, g')
          | (None, s4) \<Rightarrow>
      (case r_GetPRByID repo prID s4 of
         (Inl err, s5) \<Rightarrow> (Inl (Error (''failed to get updated PR: '' @ err)), s5, g')
       | (Inr updatedPR, s5) \<Rightarrow> (Inr (updatedPR, UserID newReviewer), s5, g'))))))))"

definition GetUserReviews ::
  "'s RepositoryInterface \<Rightarrow> uuid \<Rightarrow> 's \<Rightarrow> (failure + PullRequestShort list) \<times> 's" where
  "GetUserReviews repo userID s =
     (if userID = uuid_Nil then (Inl (Error ''user_id cannot be nil UUID''), s)
      else (case r_GetPRsByReviewer repo userID s of
              (Inl err, s1) \<Rightarrow> (Inl (Error err), s1)
            | (Inr prs, s1) \<Rightarrow> (Inr prs, s1)))"

definition GetStatistics :: "'s StatsRepository \<Rightarrow> 's \<Rightarrow> (failure + Statistics) \<times> 's" where
  "GetStatistics repo s =
     (case r_GetPRStats repo s of
        (Inl err, s1) \<Rightarrow> (Inl (Error (''failed to get PR stats: '' @ err)), s1)
      | (Inr prStats, s1) \<Rightarrow>
     (case r_GetUserAssignmentStats repo s1 of
        (Inl err, s2) \<Rightarrow> (Inl (Error (''failed to get user stats: '' @ err)), s2)
      | (Inr userStats, s2) \<Rightarrow>
     (case r_GetTotalUsers repo s2 of
        (Inl err, s3) \<Rightarrow> (Inl (Error (''failed to get total users: '' @ err)), s3)
      | (Inr totalUsers, s3) \<Rightarrow>
     (case r_GetTotalTeams repo s3 of
        (Inl err, s4) \<Rightarrow> (Inl (Error (''failed to get total teams: '' @ err)), s4)
      | (Inr totalTeams, s4) \<Rightarrow>
     (case r_GetActiveUsers repo s4 of
        (Inl err, s5) \<Rightarrow> (Inl (Error (''failed to get active users: '' @ err)), s5)
      | (Inr activeUsers, s5) \<Rightarrow>
          (Inr \<lparr>st_PRStats = prStats, UserStats = userStats, TotalUsers = totalUsers,
                TotalTeams = totalTeams, ActiveUsers = activeUsers\<rparr>, s5))))))"

section \<open>A repository that records its calls\<close>

text \<open>
  As the mock repository of the service's tests records the calls made on it, the
  recording repository runs every method of a given repository and appends the call to
  a log kept beside the state.
\<close>

datatype call =
    CallCreateTeam Team
  | CallGetTeamByName string
  | CallTeamExists string
  | CallGetUserByID uuid
  | CallGetTeamMembers string
  | CallSetUserActive uuid bool
  | CallCreatePR PullRequest "uuid list"
  | CallGetPRByID uuid
  | CallPRExists uuid
  | CallUpdatePRStatus uuid string "time option"
  | CallReplaceReviewer uuid uuid uuid
  | CallGetPRsByReviewer uuid

definition recorded :: "call \<Rightarrow> ('s \<Rightarrow> 'a \<times> 's) \<Rightarrow> 's \<times> call list \<Rightarrow> 'a \<times> 's \<times> call list" where
  "recorded c f sl = (case sl of (s, log) \<Rightarrow> (case f s of (x, s') \<Rightarrow> (x, s', log @ [c])))"

definition Recording :: "'s RepositoryInterface \<Rightarrow> ('s \<times> call list) RepositoryInterface" where
  "Recording repo =
     \<lparr>r_CreateTeam = (\<lambda>team. recorded (CallCreateTeam team) (r_CreateTeam repo team)),
      r_GetTeamByName = (\<lambda>n. recorded (CallGetTeamByName n) (r_GetTeamByName repo n)),
      r_TeamExists = (\<lambda>n. recorded (CallTeamExists n) (r_TeamExists repo n)),
      r_GetUserByID = (\<lambda>u. recorded (CallGetUserByID u) (r_GetUserByID repo u)),
      r_GetTeamMembers = (\<lambda>n. recorded (CallGetTeamMembers n) (r_GetTeamMembers repo n)),
      r_SetUserActive = (\<lambda>u a. recorded (CallSetUserActive u a) (r_SetUserActive repo u a)),
      r_CreatePR = (\<lambda>pr rs. recorded (CallCreatePR pr rs) (r_CreatePR repo pr rs)),
      r_GetPRByID = (\<lambda>p. recorded (CallGetPRByID p) (r_GetPRByID repo p)),
      r_PRExists = (\<lambda>p. recorded (CallPRExists p) (r_PRExists repo p)),
      r_UpdatePRStatus =
        (\<lambda>p st m. recorded (CallUpdatePRStatus p st m) (r_UpdatePRStatus repo p st m)),
      r_ReplaceReviewer =
        (\<lambda>p old new. recorded (CallReplaceReviewer p old new) (r_ReplaceReviewer repo p old new)),
      r_GetPRsByReviewer = (\<lambda>u. recorded (CallGetPRsByReviewer u) (r_GetPRsByReviewer repo u))\<rparr>"

section \<open>The SQL repository (internal/repository, the file of \<open>Repository\<close>)\<close>

text \<open>
  The tables of the migration, with the columns some query reads. Rows are kept in a
  list. \<open>server_now\<close> is what \<open>NOW()\<close> returns and \<open>server_uuid\<close> what
  \<open>gen_random_uuid()\<close> returns, both set by the environment. The model holds the
  primary keys, the unique team name and the foreign keys of the schema; a statement
  that violates one fails and its transaction changes nothing. The length limits of the
  \<open>VARCHAR\<close> columns are not modelled (the validator bounds the lengths before any
  insert), nor are failures of the connection; those are covered where a theorem is
  about every repository. A query without \<open>ORDER BY\<close> returns the rows in the order
  of the list, and a timestamp is stored as it is given. The driver's message for a
  violated constraint is shortened to its kind.
\<close>

record team_row =
  team_id :: uuid
  team_name :: string

record user_row =
  user_id :: uuid
  username :: string
  u_team_id :: uuid
  is_active :: bool

record pr_row =
  pull_request_id :: uuid
  pull_request_name :: string
  author_id :: uuid
  status :: string
  created_at :: time
  merged_at :: "time option"

record database =
  teams :: "team_row list"
  users :: "user_row list"
  pull_requests :: "pr_row list"
  pr_reviewers :: "(uuid \<times> uuid) list"
  server_now :: time
  server_uuid :: uuid

definition pqUniqueViolation :: error where
  "pqUniqueViolation = ''pq: duplicate key value violates unique constraint''"

definition pqForeignKeyViolation :: error where
  "pqForeignKeyViolation = ''pq: insert or update violates foreign key constraint''"

text \<open>\<open>INSERT INTO users ... ON CONFLICT (user_id) DO UPDATE SET ...\<close>\<close>

definition upsertMember :: "uuid \<Rightarrow> user_row list \<Rightarrow> TeamMember \<Rightarrow> user_row list" where
  "upsertMember teamID rows member =
     (if list_ex (\<lambda>u. user_id u = m_UserID member) rows
      then map (\<lambda>u. if user_id u = m_UserID member
                     then u\<lparr>username := m_Username member, u_team_id := teamID,
                            is_active := m_IsActive member\<rparr>
                     else u) rows
      else rows @ [\<lparr>user_id = m_UserID member, username = m_Username member,
                     u_team_id = teamID, is_active = m_IsActive member\<rparr>])"

text \<open>
  \<open>CreateTeam\<close>: the insert into \<open>teams\<close> fails with SQLSTATE 23505 when the name
  or the generated id is taken, which the method reports as \<open>TEAM_EXISTS\<close>.
\<close>

definition Repository_CreateTeam :: "Team \<Rightarrow> database \<Rightarrow> error option \<times> database" where
  "Repository_CreateTeam team db =
     (let teamID = server_uuid db
      in if list_ex (\<lambda>t. team_name t = t_TeamName team \<or> team_id t = teamID) (teams db)
         then (Some ''TEAM_EXISTS'', db)
         else (None, db\<lparr>teams := teams db @ [\<lparr>team_id = teamID, team_name = t_TeamName team\<rparr>],
                        users := foldl (upsertMember teamID) (users db) (Members team)\<rparr>))"

text \<open>\<open>ORDER BY username\<close>, taken in the order of the bytes.\<close>

definition Repository_GetTeamByName :: "string \<Rightarrow> database \<Rightarrow> (error + Team) \<times> database" where
  "Repository_GetTeamByName teamName db =
     (case filter (\<lambda>t. team_name t = teamName) (teams db) of
        [] \<Rightarrow> (Inl ''TEAM_NOT_FOUND'', db)
      | t # _ \<Rightarrow>
          (Inr \<lparr>t_TeamID = uuid_Nil, t_TeamName = team_name t,
                Members = map (\<lambda>u. \<lparr>m_UserID = user_id u, m_Username = username u,
                                      m_IsActive = is_active u\<rparr>)
                            (sort_key username (filter (\<lambda>u. u_team_id u = team_id t) (users db)))\<rparr>,
           db))"

definition Repository_TeamExists :: "string \<Rightarrow> database \<Rightarrow> (error + bool) \<times> database" where
  "Repository_TeamExists teamName db =
     (Inr (list_ex (\<lambda>t. team_name t = teamName) (teams db)), db)"

text \<open>
  The rows of \<open>users u JOIN teams t ON u.team_id = t.team_id\<close>, as the \<open>User\<close> values
  the two queries scan: the team id is not selected and stays zero.
\<close>

definition usersWithTeams :: "database \<Rightarrow> User list" where
  "usersWithTeams db =
     concat (map (\<lambda>u. map (\<lambda>t. \<lparr>UserID = user_id u, Username = username u, TeamID = uuid_Nil,
                                    TeamName = team_name t, IsActive = is_active u\<rparr>)
                           (filter (\<lambda>t. u_team_id u = team_id t) (teams db)))
                 (users db))"

definition Repository_GetUserByID :: "uuid \<Rightarrow> database \<Rightarrow> (error + User) \<times> database" where
  "Repository_GetUserByID userID db =
     (case filter (\<lambda>u. UserID u = userID) (usersWithTeams db) of
        [] \<Rightarrow> (Inl ''USER_NOT_FOUND'', db)
      | u # _ \<Rightarrow> (Inr u, db))"

definition Repository_GetTeamMembers ::
  "string \<Rightarrow> database \<Rightarrow> (error + User list) \<times> database" where
  "Repository_GetTeamMembers teamName db =
     (Inr (sort_key Username (filter (\<lambda>u. TeamName u = teamName) (usersWithTeams db))), db)"

definition Repository_SetUserActive ::
  "uuid \<Rightarrow> bool \<Rightarrow> database \<Rightarrow> error option \<times> database" where
  "Repository_SetUserActive userID isActive db =
     (if \<not> list_ex (\<lambda>u. user_id u = userID) (users db) then (Some ''USER_NOT_FOUND'', db)
      else (None, db\<lparr>users := map (\<lambda>u. if user_id u = userID then u\<lparr>is_active := isActive\<rparr>
                                         else u) (users db)\<rparr>))"

text \<open>
  The inserts of \<open>CreatePR\<close> into \<open>pr_reviewers\<close>, one reviewer after the other,
  inside the transaction: \<open>None\<close> is the rollback.
\<close>

fun insertReviewers ::
  "user_row list \<Rightarrow> uuid \<Rightarrow> uuid list \<Rightarrow> (uuid \<times> uuid) list \<Rightarrow> error + (uuid \<times> uuid) list" where
  "insertReviewers us prID [] rows = Inr rows"
| "insertReviewers us prID (reviewerID # rest) rows =
     (if (prID, reviewerID) \<in> set rows
      then Inl (''failed to insert reviewer: '' @ pqUniqueViolation)
      else if \<not> list_ex (\<lambda>u. user_id u = reviewerID) us
      then Inl (''failed to insert reviewer: '' @ pqForeignKeyViolation)
      else insertReviewers us prID rest (rows @ [(prID, reviewerID)]))"

definition Repository_CreatePR ::
  "PullRequest \<Rightarrow> uuid list \<Rightarrow> database \<Rightarrow> error option \<times> database" where
  "Repository_CreatePR pr reviewers db =
     (if list_ex (\<lambda>p. pull_request_id p = PullRequestID pr) (pull_requests db)
      then (Some ''PR_EXISTS'', db)
      else if \<not> list_ex (\<lambda>u. user_id u = AuthorID pr) (users db)
      then (Some (''failed to insert pull request: '' @ pqForeignKeyViolation), db)
      else (case insertReviewers (users db) (PullRequestID pr) reviewers (pr_reviewers db) of
              Inl err \<Rightarrow> (Some err, db)
            | Inr rows \<Rightarrow>
                (None, db\<lparr>pull_requests := pull_requests db @
                             [\<lparr>pull_request_id = PullRequestID pr,
                               pull_request_name = PullRequestName pr,
                               author_id = AuthorID pr, status = Status pr,
                               created_at = server_now db, merged_at = None\<rparr>],
                           pr_reviewers := rows\<rparr>)))"

definition Repository_GetPRByID ::
  "uuid \<Rightarrow> database \<Rightarrow> (error + PullRequestWithReviewers) \<times> database" where
  "Repository_GetPRByID prID db =
     (case filter (\<lambda>p. pull_request_id p = prID) (pull_requests db) of
        [] \<Rightarrow> (Inl ''PR_NOT_FOUND'', db)
      | p # _ \<Rightarrow>
          (Inr \<lparr>w_PullRequestID = pull_request_id p, w_PullRequestName = pull_request_name p,
                w_AuthorID = author_id p, w_Status = status p,
                AssignedReviewers = map snd (filter (\<lambda>r. fst r = prID) (pr_reviewers db)),
                w_CreatedAt = created_at p, w_MergedAt = merged_at p\<rparr>, db))"

definition Repository_PRExists :: "uuid \<Rightarrow> database \<Rightarrow> (error + bool) \<times> database" where
  "Repository_PRExists prID db =
     (Inr (list_ex (\<lambda>p. pull_request_id p = prID) (pull_requests db)), db)"

definition Repository_UpdatePRStatus ::
  "uuid \<Rightarrow> string \<Rightarrow> time option \<Rightarrow> database \<Rightarrow> error option \<times> database" where
  "Repository_UpdatePRStatus prID st mergedAt db =
     (None, db\<lparr>pull_requests :=
                  map (\<lambda>p. if pull_request_id p = prID
                            then p\<lparr>status := st, merged_at := mergedAt\<rparr> else p)
                      (pull_requests db)\<rparr>)"

definition Repository_ReplaceReviewer ::
  "uuid \<Rightarrow> uuid \<Rightarrow> uuid \<Rightarrow> database \<Rightarrow> error option \<times> database" where
  "Repository_ReplaceReviewer prID oldUserID newUserID db =
     (if (prID, oldUserID) \<notin> set (pr_reviewers db) then (Some ''REVIEWER_NOT_FOUND'', db)
      else if newUserID \<noteq> oldUserID \<and> (prID, newUserID) \<in> set (pr_reviewers db)
      then (Some (''failed to replace reviewer: '' @ pqUniqueViolation), db)
      else if \<not> list_ex (\<lambda>u. user_id u = newUserID) (users db)
      then (Some (''failed to replace reviewer: '' @ pqForeignKeyViolation), db)
      else (None, db\<lparr>pr_reviewers :=
                        map (\<lambda>r. if r = (prID, oldUserID) then (prID, newUserID) else r)
                            (pr_reviewers db)\<rparr>))"

text \<open>
  \<open>GetPRsByReviewer\<close>: the join of \<open>pull_requests\<close> with \<open>pr_reviewers\<close>, newest
  first; the author is not selected and stays zero.
\<close>

definition Repository_GetPRsByReviewer ::
  "uuid \<Rightarrow> database \<Rightarrow> (error + PullRequestShort list) \<times> database" where
  "Repository_GetPRsByReviewer userID db =
     (Inr (map (\<lambda>p. \<lparr>s_PullRequestID = pull_request_id p,
                       s_PullRequestName = pull_request_name p,
                       s_AuthorID = uuid_Nil, s_Status = status p\<rparr>)
               (rev (sort_key created_at
                  (concat (map (\<lambda>p. map (\<lambda>r. p)
                                       (filter (\<lambda>r. fst r = pull_request_id p \<and> snd r = userID)
                                               (pr_reviewers db)))
                               (pull_requests db)))))), db)"

definition Repository :: "database RepositoryInterface" where
  "Repository =
     \<lparr>r_CreateTeam = Repository_CreateTeam,
      r_GetTeamByName = Repository_GetTeamByName,
      r_TeamExists = Repository_TeamExists,
      r_GetUserByID = Repository_GetUserByID,
      r_GetTeamMembers = Repository_GetTeamMembers,
      r_SetUserActive = Repository_SetUserActive,
      r_CreatePR = Repository_CreatePR,
      r_GetPRByID = Repository_GetPRByID,
      r_PRExists = Repository_PRExists,
      r_UpdatePRStatus = Repository_UpdatePRStatus,
      r_ReplaceReviewer = Repository_ReplaceReviewer,
      r_GetPRsByReviewer = Repository_GetPRsByReviewer\<rparr>"

section \<open>The states the service can bring the database to\<close>

text \<open>
  The service is the only writer. A state is reachable when it is the empty database,
  or follows a reachable one by a step of the environment (the clock and the next
  generated id change) or by one of the five writing methods of the service, whatever
  their arguments and results. The generator's state is a natural number here.
\<close>

definition emptyDatabase :: "time \<Rightarrow> uuid \<Rightarrow> database" where
  "emptyDatabase t u =
     \<lparr>teams = [], users = [], pull_requests = [], pr_reviewers = [],
      server_now = t, server_uuid = u\<rparr>"

inductive reachable :: "database \<Rightarrow> bool" where
  reach_empty: "reachable (emptyDatabase t u)"
| reach_environment: "reachable db \<Longrightarrow> reachable (db\<lparr>server_now := t, server_uuid := u\<rparr>)"
| reach_CreateTeam: "reachable db \<Longrightarrow> reachable (snd (CreateTeam Repository team db))"
| reach_SetUserActive:
    "reachable db \<Longrightarrow> reachable (snd (SetUserActive Repository userID isActive db))"
| reach_CreatePR:
    "reachable db \<Longrightarrow>
     reachable (fst (snd (CreatePR Repository (rnd :: nat rand) prID prName authorID (db, g))))"
| reach_MergePR: "reachable db \<Longrightarrow> reachable (snd (MergePR Repository now prID db))"
| reach_ReassignReviewer:
    "reachable db \<Longrightarrow>
     reachable (fst (snd (ReassignReviewer Repository (rnd :: nat rand) prID oldUserID (db, g))))"

text \<open>
  What holds of every reachable state: ids of pull requests are unique and not nil,
  no (pull request, reviewer) pair is stored twice, every reviewer row belongs to a
  stored pull request, and no pull request has its author among its reviewers.
\<close>

definition integrity :: "database \<Rightarrow> bool" where
  "integrity db \<longleftrightarrow>
     distinct (map pull_request_id (pull_requests db)) \<and>
     distinct (pr_reviewers db) \<and>
     (\<forall>r \<in> set (pr_reviewers db). fst r \<in> pull_request_id ` set (pull_requests db)) \<and>
     (\<forall>p \<in> set (pull_requests db).
        pull_request_id p \<noteq> uuid_Nil \<and> (pull_request_id p, author_id p) \<notin> set (pr_reviewers db))"

section \<open>Draws of the shuffle\<close>

text \<open>
  A generator that plays back a list of draws, and the lists of draws of the loop of
  \<open>Shuffle\<close> from position \<open>i\<close> down to 1: one draw \<open>j \<le> i\<close> for every position.
\<close>

definition scripted :: "nat list rand" where
  "scripted n js = (case js of [] \<Rightarrow> (0, []) | j # rest \<Rightarrow> (j, rest))"

fun drawsFrom :: "nat \<Rightarrow> nat list \<Rightarrow> bool" where
  "drawsFrom 0 js \<longleftrightarrow> js = []"
| "drawsFrom (Suc i) [] \<longleftrightarrow> False"
| "drawsFrom (Suc i) (j # js) \<longleftrightarrow> j \<le> Suc i \<and> drawsFrom i js"

section \<open>The validator's contract as the specification words it\<close>

text \<open>
  The number of characters of a UTF-8 string: its bytes that are not continuation bytes
  (\<open>10xxxxxx\<close>). For a string of one-byte characters it is the length.
\<close>

definition charCount :: "string \<Rightarrow> nat" where
  "charCount s =
     length (filter (\<lambda>c. \<not> (0x80 \<le> (of_char c :: nat) \<and> (of_char c :: nat) < 0xC0)) s)"

text \<open>
  The acceptance condition in the specification's words: a non-empty name of at most 255
  characters, at least one member, no duplicate member identifiers, and every member
  with a non-nil id and a non-empty username of at most 255 characters.
\<close>

definition spec_team_accepted :: "Team \<Rightarrow> bool" where
  "spec_team_accepted team \<longleftrightarrow>
     t_TeamName team \<noteq> [] \<and> charCount (t_TeamName team) \<le> 255 \<and>
     Members team \<noteq> [] \<and> distinct (map m_UserID (Members team)) \<and>
     list_all (\<lambda>m. m_UserID m \<noteq> uuid_Nil \<and> m_Username m \<noteq> [] \<and>
                    charCount (m_Username m) \<le> 255) (Members team)"

text \<open>What each error of the member loop says about the member list.\<close>

definition memberErrorMeans :: "(uuid \<Rightarrow> bool) \<Rightarrow> TeamMember list \<Rightarrow> error \<Rightarrow> bool" where
  "memberErrorMeans seen ms e \<longleftrightarrow>
     (e = ''user_id cannot be nil UUID'' \<and> (\<exists>m \<in> set ms. m_UserID m = uuid_Nil)) \<or>
     (e = ''username cannot be empty'' \<and> (\<exists>m \<in> set ms. TrimSpace (m_Username m) = [])) \<or>
     (e = ''username too long (max 255 characters)'' \<and>
        (\<exists>m \<in> set ms. length (m_Username m) > 255)) \<or>
     (\<exists>m \<in> set ms. e = ''duplicate user_id in team: '' @ uuid_String (m_UserID m) \<and>
        (seen (m_UserID m) \<or> \<not> distinct (map m_UserID ms)))"

section \<open>Example data\<close>

definition blankTeam :: Team where
  "blankTeam = \<lparr>t_TeamID = 0, t_TeamName = ''   '',
       Members = [\<lparr>m_UserID = 1, m_Username = ''Alice'', m_IsActive = True\<rparr>]\<rparr>"

definition backendTeam :: Team where
  "backendTeam = \<lparr>t_TeamID = 0, t_TeamName = ''backend'',
       Members = [\<lparr>m_UserID = 1, m_Username = ''Alice'', m_IsActive = True\<rparr>,
                  \<lparr>m_UserID = 2, m_Username = ''Bob'', m_IsActive = False\<rparr>]\<rparr>"

text \<open>
  A team of four, the database after the team is created, after Alice opens pull request
  10 and after that pull request is merged at time 7; variants with inactive members; a
  generator whose draw is its state, counting up; and a statistics repository whose
  count of teams can fail.
\<close>

definition exampleTeam :: Team where
  "exampleTeam = \<lparr>t_TeamID = 0, t_TeamName = ''backend'',
       Members = [\<lparr>m_UserID = 1, m_Username = ''Alice'', m_IsActive = True\<rparr>,
                  \<lparr>m_UserID = 2, m_Username = ''Bob'', m_IsActive = True\<rparr>,
                  \<lparr>m_UserID = 3, m_Username = ''Carol'', m_IsActive = True\<rparr>,
                  \<lparr>m_UserID = 4, m_Username = ''Dave'', m_IsActive = True\<rparr>]\<rparr>"

definition counterRand :: "nat rand" where
  "counterRand n g = (g, Suc g)"

definition exampleUsers :: "bool \<Rightarrow> bool \<Rightarrow> user_row list" where
  "exampleUsers bobActive carolActive =
     [\<lparr>user_id = 1, username = ''Alice'', u_team_id = 100, is_active = True\<rparr>,
      \<lparr>user_id = 2, username = ''Bob'', u_team_id = 100, is_active = bobActive\<rparr>,
      \<lparr>user_id = 3, username = ''Carol'', u_team_id = 100, is_active = carolActive\<rparr>,
      \<lparr>user_id = 4, username = ''Dave'', u_team_id = 100, is_active = True\<rparr>]"

definition teamOnly :: database where
  "teamOnly = \<lparr>teams = [\<lparr>team_id = 100, team_name = ''backend''\<rparr>],
     users = exampleUsers True True,
     pull_requests = [], pr_reviewers = [], server_now = 0, server_uuid = 100\<rparr>"

definition openRow :: pr_row where
  "openRow = \<lparr>pull_request_id = 10, pull_request_name = ''Feature'', author_id = 1,
               status = ''open'', created_at = 0, merged_at = None\<rparr>"

definition mergedRow :: pr_row where
  "mergedRow = \<lparr>pull_request_id = 10, pull_request_name = ''Feature'', author_id = 1,
               status = ''merged'', created_at = 0, merged_at = Some 7\<rparr>"

definition withOpenPR :: database where
  "withOpenPR = teamOnly\<lparr>pull_requests := [openRow], pr_reviewers := [(10, 4), (10, 3)]\<rparr>"

definition withMergedPR :: database where
  "withMergedPR = withOpenPR\<lparr>pull_requests := [mergedRow]\<rparr>"

definition bobInactive :: database where
  "bobInactive = withOpenPR\<lparr>users := exampleUsers False True\<rparr>"

definition onlyDaveFree :: database where
  "onlyDaveFree = teamOnly\<lparr>users := exampleUsers False False\<rparr>"

definition openPR :: "uuid list \<Rightarrow> PullRequestWithReviewers" where
  "openPR reviewers = \<lparr>w_PullRequestID = 10, w_PullRequestName = ''Feature'', w_AuthorID = 1,
       w_Status = ''open'', AssignedReviewers = reviewers, w_CreatedAt = 0, w_MergedAt = None\<rparr>"

definition mergedPR :: PullRequestWithReviewers where
  "mergedPR = \<lparr>w_PullRequestID = 10, w_PullRequestName = ''Feature'', w_AuthorID = 1,
       w_Status = ''merged'', AssignedReviewers = [4, 3], w_CreatedAt = 0, w_MergedAt = Some 7\<rparr>"

definition exampleUser :: "uuid \<Rightarrow> string \<Rightarrow> bool \<Rightarrow> User" where
  "exampleUser u n a = \<lparr>UserID = u, Username = n, TeamID = 0, TeamName = ''backend'', IsActive = a\<rparr>"

definition exampleStats :: "bool \<Rightarrow> nat StatsRepository" where
  "exampleStats teamsFail =
     \<lparr>r_GetUserAssignmentStats = (\<lambda>s. (Inr [], Suc s)),
      r_GetPRStats =
        (\<lambda>s. (Inr \<lparr>TotalOpen = 1, TotalMerged = 0, TotalPRs = 1, AvgMergeTimeHours = 0\<rparr>, Suc s)),
      r_GetTotalUsers = (\<lambda>s. (Inr 4, Suc s)),
      r_GetTotalTeams =
        (\<lambda>s. if teamsFail then (Inl ''connection refused'', Suc s) else (Inr 1, Suc s)),
      r_GetActiveUsers = (\<lambda>s. (Inr 4, Suc s))\<rparr>"

definition exampleMembers :: "bool \<Rightarrow> bool \<Rightarrow> User list" where
  "exampleMembers bobActive carolActive =
     [exampleUser 1 ''Alice'' True, exampleUser 2 ''Bob'' bobActive,
      exampleUser 3 ''Carol'' carolActive, exampleUser 4 ''Dave'' True]"

text \<open>The database with the open pull request and a fifth member of the team.\<close>

definition withEve :: database where
  "withEve = withOpenPR\<lparr>users := exampleUsers True True @
       [\<lparr>user_id = 5, username = ''Eve'', u_team_id = 100, is_active = True\<rparr>]\<rparr>"

definition membersWithEve :: "User list" where
  "membersWithEve = exampleMembers True True @ [exampleUser 5 ''Eve'' True]"

section \<open>Auxiliary facts\<close>

subsection \<open>Validation of teams\<close>

lemma ValidateTeamMember_None:
  "ValidateTeamMember m = None \<longleftrightarrow>
     m_UserID m \<noteq> uuid_Nil \<and> TrimSpace (m_Username m) \<noteq> [] \<and> length (m_Username m) \<le> 255"
  by (simp add: ValidateTeamMember_def)

lemma validateMembers_None:
  "validateMembers seen ms = None \<longleftrightarrow>
     (\<forall>m \<in> set ms. ValidateTeamMember m = None \<and> \<not> seen (m_UserID m)) \<and>
     distinct (map m_UserID ms)"
proof (induction ms arbitrary: seen)
  case Nil
  show ?case by simp
next
  case (Cons m ms)
  show ?case
  proof (cases "ValidateTeamMember m")
    case (Some e)
    then show ?thesis by simp
  next
    case None
    show ?thesis
    proof (cases "seen (m_UserID m)")
      case True
      with None show ?thesis by simp
    next
      case False
      have "validateMembers seen (m # ms) = validateMembers (seen(m_UserID m := True)) ms"
        using None False by simp
      also have "\<dots> = None \<longleftrightarrow>
        (\<forall>x \<in> set ms. ValidateTeamMember x = None \<and> \<not> (seen(m_UserID m := True)) (m_UserID x)) \<and>
        distinct (map m_UserID ms)"
        by (rule Cons.IH)
      finally show ?thesis using None False by (auto simp: image_iff)
    qed
  qed
qed

lemma ValidateTeamMember_Some:
  "ValidateTeamMember m = Some e \<Longrightarrow>
     (e = ''user_id cannot be nil UUID'' \<and> m_UserID m = uuid_Nil) \<or>
     (e = ''username cannot be empty'' \<and> TrimSpace (m_Username m) = []) \<or>
     (e = ''username too long (max 255 characters)'' \<and> length (m_Username m) > 255)"
  by (simp add: ValidateTeamMember_def split: if_splits)

lemma memberErrorMeans_Cons:
  assumes "memberErrorMeans (seen(m_UserID m := True)) ms e"
  shows "memberErrorMeans seen (m # ms) e"
proof -
  consider
      (nil) "e = ''user_id cannot be nil UUID''" "\<exists>x \<in> set ms. m_UserID x = uuid_Nil"
    | (empty) "e = ''username cannot be empty''" "\<exists>x \<in> set ms. TrimSpace (m_Username x) = []"
    | (long) "e = ''username too long (max 255 characters)''"
        "\<exists>x \<in> set ms. length (m_Username x) > 255"
    | (dup) x where "x \<in> set ms" "e = ''duplicate user_id in team: '' @ uuid_String (m_UserID x)"
        "(seen(m_UserID m := True)) (m_UserID x) \<or> \<not> distinct (map m_UserID ms)"
    using assms unfolding memberErrorMeans_def by blast
  then show ?thesis
  proof cases
    case nil
    then show ?thesis unfolding memberErrorMeans_def by simp
  next
    case empty
    then show ?thesis unfolding memberErrorMeans_def by simp
  next
    case long
    then show ?thesis unfolding memberErrorMeans_def by simp
  next
    case dup
    have "seen (m_UserID x) \<or> \<not> distinct (map m_UserID (m # ms))"
    proof (cases "m_UserID x = m_UserID m")
      case True
      have "m_UserID x \<in> m_UserID ` set ms" using dup(1) by (rule imageI)
      with True have "m_UserID m \<in> set (map m_UserID ms)" by simp
      then show ?thesis by simp
    next
      case False
      with dup(3) show ?thesis by auto
    qed
    with dup(1,2) have "\<exists>y \<in> set (m # ms).
        e = ''duplicate user_id in team: '' @ uuid_String (m_UserID y) \<and>
        (seen (m_UserID y) \<or> \<not> distinct (map m_UserID (m # ms)))"
      by (intro bexI [of _ x]) simp_all
    then show ?thesis unfolding memberErrorMeans_def by blast
  qed
qed

lemma validateMembers_Some:
  "validateMembers seen ms = Some e \<Longrightarrow> memberErrorMeans seen ms e"
proof (induction ms arbitrary: seen)
  case Nil
  then show ?case by simp
next
  case (Cons m ms)
  show ?case
  proof (cases "ValidateTeamMember m")
    case (Some e')
    with Cons.prems have "e' = e" by simp
    with Some ValidateTeamMember_Some [of m e] show ?thesis
      unfolding memberErrorMeans_def by auto
  next
    case None
    show ?thesis
    proof (cases "seen (m_UserID m)")
      case True
      with None Cons.prems have "e = ''duplicate user_id in team: '' @ uuid_String (m_UserID m)"
        by simp
      with True show ?thesis unfolding memberErrorMeans_def by auto
    next
      case False
      with None Cons.prems have "validateMembers (seen(m_UserID m := True)) ms = Some e"
        by simp
      then have "memberErrorMeans (seen(m_UserID m := True)) ms e" by (rule Cons.IH)
      then show ?thesis by (rule memberErrorMeans_Cons)
    qed
  qed
qed

subsection \<open>The recording repository and the candidates of a reassignment\<close>

lemma Recording_simps [simp]:
  "r_GetPRByID (Recording repo) p (s, log) =
     (case r_GetPRByID repo p s of (x, s') \<Rightarrow> (x, s', log @ [CallGetPRByID p]))"
  "r_GetUserByID (Recording repo) u (s, log) =
     (case r_GetUserByID repo u s of (x, s') \<Rightarrow> (x, s', log @ [CallGetUserByID u]))"
  "r_GetTeamMembers (Recording repo) n (s, log) =
     (case r_GetTeamMembers repo n s of (x, s') \<Rightarrow> (x, s', log @ [CallGetTeamMembers n]))"
  "r_PRExists (Recording repo) p (s, log) =
     (case r_PRExists repo p s of (x, s') \<Rightarrow> (x, s', log @ [CallPRExists p]))"
  "r_CreatePR (Recording repo) pr rs (s, log) =
     (case r_CreatePR repo pr rs s of (x, s') \<Rightarrow> (x, s', log @ [CallCreatePR pr rs]))"
  "r_UpdatePRStatus (Recording repo) p st m (s, log) =
     (case r_UpdatePRStatus repo p st m s of (x, s') \<Rightarrow> (x, s', log @ [CallUpdatePRStatus p st m]))"
  "r_ReplaceReviewer (Recording repo) p old new (s, log) =
     (case r_ReplaceReviewer repo p old new s of
        (x, s') \<Rightarrow> (x, s', log @ [CallReplaceReviewer p old new]))"
  by (simp_all add: Recording_def recorded_def)

lemma excludeIDs_iff:
  "excludeIDs pr u \<longleftrightarrow> u = w_AuthorID pr \<or> u \<in> set (AssignedReviewers pr)"
proof -
  have "foldl (\<lambda>m r. m(r := True)) m0 rs u \<longleftrightarrow> m0 u \<or> u \<in> set rs" for m0 rs
    by (induction rs arbitrary: m0) auto
  then show ?thesis by (auto simp: excludeIDs_def)
qed

lemma reassignCandidates_eq:
  "reassignCandidates pr members =
     filter (\<lambda>m. UserID m \<noteq> w_AuthorID pr \<and> UserID m \<notin> set (AssignedReviewers pr) \<and> IsActive m) members"
  by (auto simp: reassignCandidates_def excludeIDs_iff intro: filter_cong)

subsection \<open>The shuffle permutes\<close>

lemma Intn_less: "0 < n \<Longrightarrow> fst (Intn rnd n g) < n"
  by (simp add: Intn_def split: prod.splits)

lemma mset_swap': "i < length xs \<Longrightarrow> j < length xs \<Longrightarrow> mset (swap i j xs) = mset xs"
  unfolding swap_def by (simp add: mset_swap)

lemma length_swap [simp]: "length (swap i j xs) = length xs"
  by (simp add: swap_def)

lemma shuffleFrom_mset:
  "i < length xs \<Longrightarrow> mset (fst (shuffleFrom rnd i xs g)) = mset xs"
proof (induction i arbitrary: xs g)
  case 0
  show ?case by simp
next
  case (Suc i)
  obtain j g' where jg: "Intn rnd (Suc i + 1) g = (j, g')" by (cases "Intn rnd (Suc i + 1) g")
  have "fst (Intn rnd (Suc i + 1) g) < Suc i + 1" by (rule Intn_less) simp
  with jg have j: "j < length xs" using Suc.prems by simp
  have "mset (fst (shuffleFrom rnd i (swap (Suc i) j xs) g')) = mset (swap (Suc i) j xs)"
    by (rule Suc.IH) (use Suc.prems in simp)
  also have "\<dots> = mset xs" using Suc.prems j by (rule mset_swap')
  finally show ?case using jg by simp
qed

lemma Shuffle_mset: "mset (fst (Shuffle rnd xs g)) = mset xs"
proof (cases xs)
  case Nil
  then show ?thesis by (simp add: Shuffle_def)
next
  case (Cons x ys)
  then have "length xs - 1 < length xs" by simp
  then show ?thesis unfolding Shuffle_def by (rule shuffleFrom_mset)
qed

lemma Shuffle_set: "set (fst (Shuffle rnd xs g)) = set xs"
  using Shuffle_mset [of rnd xs g] by (metis set_mset_mset)

lemma Shuffle_length: "length (fst (Shuffle rnd xs g)) = length xs"
  using Shuffle_mset [of rnd xs g] by (metis size_mset)

lemma Shuffle_single: "length xs \<le> 1 \<Longrightarrow> Shuffle rnd xs g = (xs, g)"
  by (cases xs) (simp_all add: Shuffle_def)

lemma minInt_nonneg: "0 \<le> a \<Longrightarrow> minInt a (int n) = int (min (nat a) n)"
  unfolding minInt_def min_def by auto

lemma selectReviewers_nonneg:
  assumes "0 \<le> maxCount"
  shows "selectReviewers rnd members excludeID maxCount g =
     (let candidates = filter (\<lambda>m. UserID m \<noteq> excludeID \<and> IsActive m) members in
      if maxCount = 0 \<or> candidates = [] then (Some [], g)
      else (Some (map UserID (take (min (nat maxCount) (length candidates))
                                   (fst (Shuffle rnd candidates g)))),
            snd (Shuffle rnd candidates g)))"
proof -
  define candidates where "candidates = filter (\<lambda>m. UserID m \<noteq> excludeID \<and> IsActive m) members"
  define k where "k = min (nat maxCount) (length candidates)"
  have count: "minInt maxCount (int (length candidates)) = int k"
    unfolding k_def using assms by (rule minInt_nonneg)
  have zero: "k = 0 \<longleftrightarrow> maxCount = 0 \<or> candidates = []"
    unfolding k_def using assms by (auto simp: min_def)
  have "selectReviewers rnd members excludeID maxCount g =
      (if k = 0 then (Some [], g)
       else (Some (map UserID (take k (fst (Shuffle rnd candidates g)))),
             snd (Shuffle rnd candidates g)))"
    unfolding selectReviewers_def Let_def candidates_def [symmetric] count
    by (simp split: prod.splits)
  then show ?thesis
    unfolding Let_def candidates_def [symmetric] k_def [symmetric] zero by simp
qed

lemma selectReviewers_two:
  "\<exists>reviewers g'. selectReviewers rnd members excludeID 2 g = (Some reviewers, g') \<and>
     length reviewers \<le> 2 \<and>
     set reviewers \<subseteq> UserID ` set (filter (\<lambda>m. UserID m \<noteq> excludeID \<and> IsActive m) members) \<and>
     length reviewers = min 2 (length (filter (\<lambda>m. UserID m \<noteq> excludeID \<and> IsActive m) members))"
proof -
  let ?c = "filter (\<lambda>m. UserID m \<noteq> excludeID \<and> IsActive m) members"
  have "set (take n (fst (Shuffle rnd ?c g))) \<subseteq> set ?c" for n
    using set_take_subset [of n "fst (Shuffle rnd ?c g)"] by (simp add: Shuffle_set)
  then show ?thesis
    by (auto simp: selectReviewers_nonneg Let_def Shuffle_length simp del: set_filter)
qed

subsection \<open>Integrity of the database under reads and simple writes\<close>

lemma Repository_simps [simp]:
  "r_CreateTeam Repository = Repository_CreateTeam"
  "r_GetTeamByName Repository = Repository_GetTeamByName"
  "r_TeamExists Repository = Repository_TeamExists"
  "r_GetUserByID Repository = Repository_GetUserByID"
  "r_GetTeamMembers Repository = Repository_GetTeamMembers"
  "r_SetUserActive Repository = Repository_SetUserActive"
  "r_CreatePR Repository = Repository_CreatePR"
  "r_GetPRByID Repository = Repository_GetPRByID"
  "r_PRExists Repository = Repository_PRExists"
  "r_UpdatePRStatus Repository = Repository_UpdatePRStatus"
  "r_ReplaceReviewer Repository = Repository_ReplaceReviewer"
  "r_GetPRsByReviewer Repository = Repository_GetPRsByReviewer"
  by (simp_all add: Repository_def)

lemma reads_keep_state [simp]:
  "snd (Repository_TeamExists n db) = db"
  "snd (Repository_GetUserByID u db) = db"
  "snd (Repository_GetTeamMembers n db) = db"
  "snd (Repository_GetPRByID p db) = db"
  "snd (Repository_PRExists p db) = db"
  "snd (Repository_GetTeamByName n db) = db"
  "snd (Repository_GetPRsByReviewer u db) = db"
  by (simp_all add: Repository_TeamExists_def Repository_GetUserByID_def
      Repository_GetTeamMembers_def Repository_GetPRByID_def Repository_PRExists_def
      Repository_GetTeamByName_def Repository_GetPRsByReviewer_def split: list.splits)

lemma integrity_cong:
  "pull_requests db' = pull_requests db \<Longrightarrow> pr_reviewers db' = pr_reviewers db \<Longrightarrow>
   integrity db' = integrity db"
  by (simp add: integrity_def)

lemma integrity_empty: "integrity (emptyDatabase t u)"
  by (simp add: integrity_def emptyDatabase_def)

lemma integrity_CreateTeam:
  "integrity (snd (Repository_CreateTeam team db)) = integrity db"
  by (rule integrity_cong) (simp_all add: Repository_CreateTeam_def Let_def)

lemma integrity_SetUserActive:
  "integrity (snd (Repository_SetUserActive u a db)) = integrity db"
  by (rule integrity_cong) (simp_all add: Repository_SetUserActive_def)

lemma integrity_map_pull_requests:
  assumes id: "\<And>p. pull_request_id (f p) = pull_request_id p"
      and au: "\<And>p. author_id (f p) = author_id p"
  shows "integrity (db\<lparr>pull_requests := map f (pull_requests db)\<rparr>) = integrity db"
proof -
  have ids: "map pull_request_id (map f ps) = map pull_request_id ps" for ps
    by (induction ps) (simp_all add: id)
  have img: "pull_request_id ` set (map f ps) = pull_request_id ` set ps" for ps
    using ids [of ps] by (metis set_map)
  have all: "(\<forall>p \<in> set (map f ps). pull_request_id p \<noteq> uuid_Nil \<and>
                 (pull_request_id p, author_id p) \<notin> R) \<longleftrightarrow>
             (\<forall>p \<in> set ps. pull_request_id p \<noteq> uuid_Nil \<and>
                 (pull_request_id p, author_id p) \<notin> R)" for ps R
    by (induction ps) (simp_all add: id au)
  have prs: "pull_requests (db\<lparr>pull_requests := map f (pull_requests db)\<rparr>) = map f (pull_requests db)"
    by simp
  have rvs: "pr_reviewers (db\<lparr>pull_requests := map f (pull_requests db)\<rparr>) = pr_reviewers db"
    by simp
  show ?thesis
    unfolding integrity_def prs rvs ids img all ..
qed

lemma integrity_UpdatePRStatus:
  "integrity (snd (Repository_UpdatePRStatus prID st m db)) = integrity db"
  unfolding Repository_UpdatePRStatus_def snd_conv
  by (rule integrity_map_pull_requests) simp_all

subsection \<open>Integrity under the writes of pull requests and reviewers\<close>

lemma insertReviewers_Inr:
  "insertReviewers us prID rs rows = Inr rows' \<Longrightarrow>
     rows' = rows @ map (Pair prID) rs \<and> distinct rs \<and> (\<forall>r \<in> set rs. (prID, r) \<notin> set rows)"
proof (induction rs arbitrary: rows)
  case Nil
  then show ?case by simp
next
  case (Cons r rs)
  from Cons.prems have fresh: "(prID, r) \<notin> set rows"
    and rest: "insertReviewers us prID rs (rows @ [(prID, r)]) = Inr rows'"
    by (simp_all split: if_splits)
  from Cons.IH [OF rest] have
    eq: "rows' = (rows @ [(prID, r)]) @ map (Pair prID) rs" and d: "distinct rs"
    and n: "\<forall>x \<in> set rs. (prID, x) \<notin> set (rows @ [(prID, r)])"
    by simp_all
  from n have "r \<notin> set rs" and "\<forall>x \<in> set rs. (prID, x) \<notin> set rows" by auto
  with eq d fresh show ?case by simp
qed

lemma Repository_CreatePR_success:
  assumes "Repository_CreatePR pr rs db = (None, db')"
  shows "pull_requests db' = pull_requests db @
            [\<lparr>pull_request_id = PullRequestID pr, pull_request_name = PullRequestName pr,
              author_id = AuthorID pr, status = Status pr,
              created_at = server_now db, merged_at = None\<rparr>] \<and>
         pr_reviewers db' = pr_reviewers db @ map (Pair (PullRequestID pr)) rs \<and>
         distinct rs \<and> (\<forall>r \<in> set rs. (PullRequestID pr, r) \<notin> set (pr_reviewers db)) \<and>
         PullRequestID pr \<notin> pull_request_id ` set (pull_requests db)"
proof -
  from assms obtain rows where
    ins: "insertReviewers (users db) (PullRequestID pr) rs (pr_reviewers db) = Inr rows"
    and new: "\<not> list_ex (\<lambda>p. pull_request_id p = PullRequestID pr) (pull_requests db)"
    and db': "db' = db\<lparr>pull_requests := pull_requests db @
            [\<lparr>pull_request_id = PullRequestID pr, pull_request_name = PullRequestName pr,
              author_id = AuthorID pr, status = Status pr,
              created_at = server_now db, merged_at = None\<rparr>], pr_reviewers := rows\<rparr>"
    by (auto simp: Repository_CreatePR_def split: if_splits sum.splits)
  from new have "PullRequestID pr \<notin> pull_request_id ` set (pull_requests db)"
    by (auto simp: list_ex_iff)
  with insertReviewers_Inr [OF ins] db' show ?thesis by simp
qed

lemma Repository_CreatePR_failure:
  "Repository_CreatePR pr rs db = (Some e, db') \<Longrightarrow> db' = db"
  by (auto simp: Repository_CreatePR_def split: if_splits sum.splits)

lemma integrity_CreatePR:
  assumes inv: "integrity db"
      and ok: "Repository_CreatePR pr rs db = (None, db')"
      and nonnil: "PullRequestID pr \<noteq> uuid_Nil"
      and author: "AuthorID pr \<notin> set rs"
  shows "integrity db'"
proof -
  let ?id = "PullRequestID pr"
  note s = Repository_CreatePR_success [OF ok]
  from s have prs: "pull_requests db' = pull_requests db @
            [\<lparr>pull_request_id = ?id, pull_request_name = PullRequestName pr,
              author_id = AuthorID pr, status = Status pr,
              created_at = server_now db, merged_at = None\<rparr>]"
    and rvs: "pr_reviewers db' = pr_reviewers db @ map (Pair ?id) rs"
    and d: "distinct rs" and fresh: "\<forall>r \<in> set rs. (?id, r) \<notin> set (pr_reviewers db)"
    and unused: "?id \<notin> pull_request_id ` set (pull_requests db)"
    by simp_all
  from inv have i1: "distinct (map pull_request_id (pull_requests db))"
    and i2: "distinct (pr_reviewers db)"
    and i3: "\<forall>r \<in> set (pr_reviewers db). fst r \<in> pull_request_id ` set (pull_requests db)"
    and i4: "\<forall>p \<in> set (pull_requests db). pull_request_id p \<noteq> uuid_Nil \<and>
               (pull_request_id p, author_id p) \<notin> set (pr_reviewers db)"
    by (simp_all add: integrity_def)
  have none: "(?id, u) \<notin> set (pr_reviewers db)" for u
    using i3 unused by force
  have c1: "distinct (map pull_request_id (pull_requests db'))"
    using i1 unused by (simp add: prs)
  have "distinct (map (Pair ?id) rs)" using d by (simp add: distinct_map inj_on_def)
  then have c2: "distinct (pr_reviewers db')"
    using i2 fresh by (auto simp: rvs)
  have c3: "\<forall>r \<in> set (pr_reviewers db'). fst r \<in> pull_request_id ` set (pull_requests db')"
    using i3 by (auto simp: rvs prs)
  have c4: "\<forall>p \<in> set (pull_requests db'). pull_request_id p \<noteq> uuid_Nil \<and>
               (pull_request_id p, author_id p) \<notin> set (pr_reviewers db')"
  proof
    fix p assume "p \<in> set (pull_requests db')"
    then consider (old) "p \<in> set (pull_requests db)"
      | (new) "pull_request_id p = ?id" "author_id p = AuthorID pr"
      by (auto simp: prs)
    then show "pull_request_id p \<noteq> uuid_Nil \<and>
               (pull_request_id p, author_id p) \<notin> set (pr_reviewers db')"
    proof cases
      case old
      then have "pull_request_id p \<in> pull_request_id ` set (pull_requests db)" by (rule imageI)
      with unused have "pull_request_id p \<noteq> ?id" by auto
      with old i4 show ?thesis by (auto simp: rvs)
    next
      case new
      with nonnil author none show ?thesis by (auto simp: rvs)
    qed
  qed
  from c1 c2 c3 c4 show ?thesis unfolding integrity_def by blast
qed

lemma Repository_ReplaceReviewer_success:
  assumes "Repository_ReplaceReviewer prID old new db = (None, db')"
  shows "db' = db\<lparr>pr_reviewers := map (\<lambda>r. if r = (prID, old) then (prID, new) else r)
                                       (pr_reviewers db)\<rparr> \<and>
         (prID, old) \<in> set (pr_reviewers db) \<and>
         (new = old \<or> (prID, new) \<notin> set (pr_reviewers db))"
  using assms by (auto simp: Repository_ReplaceReviewer_def split: if_splits)

lemma Repository_ReplaceReviewer_failure:
  "Repository_ReplaceReviewer prID old new db = (Some e, db') \<Longrightarrow> db' = db"
  by (auto simp: Repository_ReplaceReviewer_def split: if_splits)

lemma integrity_ReplaceReviewer:
  assumes inv: "integrity db"
      and ok: "Repository_ReplaceReviewer prID old new db = (None, db')"
      and author: "\<forall>p \<in> set (pull_requests db). pull_request_id p = prID \<longrightarrow> author_id p \<noteq> new"
  shows "integrity db'"
proof -
  let ?f = "\<lambda>r. if r = (prID, old) then (prID, new) else r"
  note s = Repository_ReplaceReviewer_success [OF ok]
  from s have prs: "pull_requests db' = pull_requests db"
    and rvs: "pr_reviewers db' = map ?f (pr_reviewers db)"
    and mem: "(prID, old) \<in> set (pr_reviewers db)"
    and fresh: "new = old \<or> (prID, new) \<notin> set (pr_reviewers db)"
    by simp_all
  from inv have i1: "distinct (map pull_request_id (pull_requests db))"
    and i2: "distinct (pr_reviewers db)"
    and i3: "\<forall>r \<in> set (pr_reviewers db). fst r \<in> pull_request_id ` set (pull_requests db)"
    and i4: "\<forall>p \<in> set (pull_requests db). pull_request_id p \<noteq> uuid_Nil \<and>
               (pull_request_id p, author_id p) \<notin> set (pr_reviewers db)"
    by (simp_all add: integrity_def)
  have "inj_on ?f (set (pr_reviewers db))"
    using fresh by (auto simp: inj_on_def)
  with i2 have c2: "distinct (pr_reviewers db')"
    by (simp add: rvs distinct_map)
  have sub: "set (pr_reviewers db') \<subseteq> insert (prID, new) (set (pr_reviewers db))"
    by (auto simp: rvs)
  have "prID \<in> pull_request_id ` set (pull_requests db)" using i3 mem by force
  with i3 sub have c3: "\<forall>r \<in> set (pr_reviewers db'). fst r \<in> pull_request_id ` set (pull_requests db')"
    unfolding prs by fastforce
  have c4: "\<forall>p \<in> set (pull_requests db'). pull_request_id p \<noteq> uuid_Nil \<and>
               (pull_request_id p, author_id p) \<notin> set (pr_reviewers db')"
    unfolding prs using i4 author sub by fastforce
  from i1 c2 c3 c4 show ?thesis unfolding integrity_def prs by blast
qed

subsection \<open>Outcomes of the methods of the service\<close>

lemma read_state:
  "Repository_TeamExists n db = (a, s) \<Longrightarrow> s = db \<and> fst (Repository_TeamExists n db) = a"
  "Repository_GetUserByID u db = (b, s) \<Longrightarrow> s = db \<and> fst (Repository_GetUserByID u db) = b"
  "Repository_GetTeamMembers n db = (c, s) \<Longrightarrow> s = db \<and> fst (Repository_GetTeamMembers n db) = c"
  "Repository_GetPRByID p db = (d, s) \<Longrightarrow> s = db \<and> fst (Repository_GetPRByID p db) = d"
  "Repository_PRExists p db = (e, s) \<Longrightarrow> s = db \<and> fst (Repository_PRExists p db) = e"
  using reads_keep_state(1) [of n db] reads_keep_state(2) [of u db] reads_keep_state(3) [of n db]
    reads_keep_state(4) [of p db] reads_keep_state(5) [of p db]
  by auto

lemma read_pair:
  "fst (Repository_GetPRByID p db) = d \<Longrightarrow> Repository_GetPRByID p db = (d, db)"
  "fst (Repository_GetUserByID u db) = b \<Longrightarrow> Repository_GetUserByID u db = (b, db)"
  "fst (Repository_GetTeamMembers n db) = c \<Longrightarrow> Repository_GetTeamMembers n db = (c, db)"
  using reads_keep_state(4) [of p db] reads_keep_state(2) [of u db] reads_keep_state(3) [of n db]
  by (auto simp: prod_eq_iff)

lemma selectReviewers_excludes:
  assumes "selectReviewers rnd members excludeID 2 g = (Some reviewers, g')"
  shows "excludeID \<notin> set reviewers"
    and "length reviewers = min 2 (length (filter (\<lambda>m. UserID m \<noteq> excludeID \<and> IsActive m) members))"
  using selectReviewers_two [of rnd members excludeID g] assms by auto

lemma CreatePR_success:
  assumes "CreatePR Repository rnd prID prName authorID (db, g) = (Inr created, db', g')"
  shows "\<exists>members reviewers.
           selectReviewers rnd members authorID 2 g = (Some reviewers, g') \<and>
           length reviewers = 2 \<and> prID \<noteq> uuid_Nil \<and>
           Repository_CreatePR \<lparr>PullRequestID = prID, PullRequestName = prName,
              AuthorID = authorID, Status = StatusOpen, CreatedAt = 0, MergedAt = None\<rparr>
              reviewers db = (None, db') \<and>
           Repository_GetPRByID prID db' = (Inr created, db')"
  using assms
  unfolding CreatePR_def Let_def
  apply (simp split: option.splits prod.splits sum.splits if_splits)
  apply (auto dest!: read_state intro!: read_pair
      simp: ValidateReviewersCount_def ValidatePullRequest_def split: if_splits)
  done

lemma CreatePR_state:
  assumes "CreatePR Repository rnd prID prName authorID (db, g) = (res, db', g')"
  shows "db' = db \<or>
         (\<exists>members reviewers g1.
           selectReviewers rnd members authorID 2 g = (Some reviewers, g1) \<and>
           prID \<noteq> uuid_Nil \<and>
           Repository_CreatePR \<lparr>PullRequestID = prID, PullRequestName = prName,
              AuthorID = authorID, Status = StatusOpen, CreatedAt = 0, MergedAt = None\<rparr>
              reviewers db = (None, db'))"
  using assms
  unfolding CreatePR_def Let_def
  apply (simp split: option.splits prod.splits sum.splits if_splits)
  apply (auto dest!: read_state Repository_CreatePR_failure
      simp: ValidatePullRequest_def split: if_splits)
  done

lemma integrity_service_CreatePR:
  assumes "integrity db"
  shows "integrity (fst (snd (CreatePR Repository rnd prID prName authorID (db, g))))"
proof -
  obtain res db' g' where run: "CreatePR Repository rnd prID prName authorID (db, g) = (res, db', g')"
    by (metis prod_cases3)
  from CreatePR_state [OF run] have "integrity db'"
  proof (elim disjE exE conjE)
    assume "db' = db"
    with assms show ?thesis by simp
  next
    fix members reviewers g1
    assume sel: "selectReviewers rnd members authorID 2 g = (Some reviewers, g1)"
      and nonnil: "prID \<noteq> uuid_Nil"
      and ins: "Repository_CreatePR \<lparr>PullRequestID = prID, PullRequestName = prName,
              AuthorID = authorID, Status = StatusOpen, CreatedAt = 0, MergedAt = None\<rparr>
              reviewers db = (None, db')"
    from selectReviewers_excludes(1) [OF sel] have "authorID \<notin> set reviewers" .
    with integrity_CreatePR [OF assms ins] nonnil show ?thesis by simp
  qed
  with run show ?thesis by simp
qed

lemma integrity_service_CreateTeam:
  assumes "integrity db"
  shows "integrity (snd (CreateTeam Repository team db))"
proof -
  have "snd (CreateTeam Repository team db) = db \<or>
        snd (CreateTeam Repository team db) = snd (Repository_CreateTeam team db)"
    unfolding CreateTeam_def
    by (auto simp: Repository_TeamExists_def split: option.splits prod.splits)
  with assms show ?thesis by (auto simp: integrity_CreateTeam)
qed

lemma integrity_service_SetUserActive:
  assumes "integrity db"
  shows "integrity (snd (SetUserActive Repository userID isActive db))"
proof -
  have "snd (SetUserActive Repository userID isActive db) = db \<or>
        snd (SetUserActive Repository userID isActive db) =
          snd (Repository_SetUserActive userID isActive db)"
    unfolding SetUserActive_def
    by (auto dest!: read_state split: option.splits prod.splits sum.splits)
  with assms show ?thesis by (auto simp: integrity_SetUserActive)
qed

lemma integrity_service_MergePR:
  assumes "integrity db"
  shows "integrity (snd (MergePR Repository now prID db))"
proof -
  have "snd (MergePR Repository now prID db) = db \<or>
        snd (MergePR Repository now prID db) =
          snd (Repository_UpdatePRStatus prID StatusMerged (Some now) db)"
    unfolding MergePR_def
    by (auto dest!: read_state split: option.splits prod.splits sum.splits)
  with assms show ?thesis by (auto simp: integrity_UpdatePRStatus)
qed

lemma ReassignReviewer_success:
  assumes "ReassignReviewer repo rnd prID oldUserID (s, g) = (Inr (updated, new), s', g')"
  shows "\<exists>pr s1 oldUser s2 members s3 s4.
           prID \<noteq> uuid_Nil \<and> oldUserID \<noteq> uuid_Nil \<and>
           r_GetPRByID repo prID s = (Inr pr, s1) \<and> w_Status pr \<noteq> StatusMerged \<and>
           oldUserID \<in> set (AssignedReviewers pr) \<and>
           r_GetUserByID repo oldUserID s1 = (Inr oldUser, s2) \<and>
           r_GetTeamMembers repo (TeamName oldUser) s2 = (Inr members, s3) \<and>
           reassignCandidates pr members \<noteq> [] \<and>
           new = UserID (reassignCandidates pr members !
                   fst (Intn rnd (length (reassignCandidates pr members)) g)) \<and>
           g' = snd (Intn rnd (length (reassignCandidates pr members)) g) \<and>
           r_ReplaceReviewer repo prID oldUserID new s3 = (None, s4) \<and>
           r_GetPRByID repo prID s4 = (Inr updated, s')"
  using assms
  unfolding ReassignReviewer_def Let_def
  by (auto simp: list_ex_iff split: option.splits prod.splits sum.splits if_splits)

lemma ReassignReviewer_state:
  assumes "ReassignReviewer Repository rnd prID oldUserID (db, g) = (res, db', g')"
  shows "db' = db \<or>
         (\<exists>pr members.
           Repository_GetPRByID prID db = (Inr pr, db) \<and>
           reassignCandidates pr members \<noteq> [] \<and>
           Repository_ReplaceReviewer prID oldUserID
             (UserID (reassignCandidates pr members !
                   fst (Intn rnd (length (reassignCandidates pr members)) g))) db = (None, db'))"
  using assms
  unfolding ReassignReviewer_def Let_def
  apply (simp split: option.splits prod.splits sum.splits if_splits)
  apply (auto dest!: read_state Repository_ReplaceReviewer_failure intro!: read_pair)
  done

subsection \<open>Every reachable state has integrity\<close>

lemma GetPRByID_Inr:
  assumes "Repository_GetPRByID prID db = (Inr pr, s)"
  shows "\<exists>p \<in> set (pull_requests db). pull_request_id p = prID \<and>
           pr = \<lparr>w_PullRequestID = prID, w_PullRequestName = pull_request_name p,
                 w_AuthorID = author_id p, w_Status = status p,
                 AssignedReviewers = map snd (filter (\<lambda>r. fst r = prID) (pr_reviewers db)),
                 w_CreatedAt = created_at p, w_MergedAt = merged_at p\<rparr>"
proof -
  from assms obtain p ps where f: "filter (\<lambda>p. pull_request_id p = prID) (pull_requests db) = p # ps"
    and pr: "pr = \<lparr>w_PullRequestID = pull_request_id p, w_PullRequestName = pull_request_name p,
                 w_AuthorID = author_id p, w_Status = status p,
                 AssignedReviewers = map snd (filter (\<lambda>r. fst r = prID) (pr_reviewers db)),
                 w_CreatedAt = created_at p, w_MergedAt = merged_at p\<rparr>"
    by (auto simp: Repository_GetPRByID_def split: list.splits)
  from f have "p \<in> set (filter (\<lambda>p. pull_request_id p = prID) (pull_requests db))" by simp
  then have "p \<in> set (pull_requests db)" "pull_request_id p = prID" by simp_all
  with pr show ?thesis by auto
qed

lemma GetPRByID_stored:
  assumes d: "distinct (map pull_request_id (pull_requests db))"
      and p: "p \<in> set (pull_requests db)"
  shows "Repository_GetPRByID (pull_request_id p) db =
           (Inr \<lparr>w_PullRequestID = pull_request_id p, w_PullRequestName = pull_request_name p,
                 w_AuthorID = author_id p, w_Status = status p,
                 AssignedReviewers =
                   map snd (filter (\<lambda>r. fst r = pull_request_id p) (pr_reviewers db)),
                 w_CreatedAt = created_at p, w_MergedAt = merged_at p\<rparr>, db)"
proof -
  have "filter (\<lambda>q. pull_request_id q = pull_request_id p) ps = [p]"
    if "distinct (map pull_request_id ps)" "p \<in> set ps" for ps
    using that
  proof (induction ps)
    case Nil
    then show ?case by simp
  next
    case (Cons q ps)
    show ?case
    proof (cases "q = p")
      case True
      with Cons.prems(1) have "\<forall>x \<in> set ps. pull_request_id x \<noteq> pull_request_id p"
        by (auto simp: image_iff)
      then have "filter (\<lambda>q. pull_request_id q = pull_request_id p) ps = []"
        by (simp add: filter_empty_conv)
      with True show ?thesis by simp
    next
      case False
      with Cons.prems have "p \<in> set ps" "distinct (map pull_request_id ps)" by simp_all
      moreover from this Cons.prems(1) have "pull_request_id q \<noteq> pull_request_id p"
        by (auto simp: image_iff)
      ultimately show ?thesis using Cons.IH by simp
    qed
  qed
  from this [OF d p] show ?thesis by (simp add: Repository_GetPRByID_def)
qed

lemma candidate_not_excluded:
  assumes "reassignCandidates pr members \<noteq> []"
  shows "UserID (reassignCandidates pr members !
           fst (Intn rnd (length (reassignCandidates pr members)) g)) \<noteq> w_AuthorID pr \<and>
         UserID (reassignCandidates pr members !
           fst (Intn rnd (length (reassignCandidates pr members)) g)) \<notin> set (AssignedReviewers pr)"
proof -
  let ?c = "reassignCandidates pr members"
  have "fst (Intn rnd (length ?c) g) < length ?c"
    by (rule Intn_less) (use assms in simp)
  then have "?c ! fst (Intn rnd (length ?c) g) \<in> set ?c" by (rule nth_mem)
  then show ?thesis unfolding reassignCandidates_eq by simp
qed

lemma integrity_service_ReassignReviewer:
  assumes inv: "integrity db"
  shows "integrity (fst (snd (ReassignReviewer Repository rnd prID oldUserID (db, g))))"
proof -
  obtain res db' g' where run: "ReassignReviewer Repository rnd prID oldUserID (db, g) = (res, db', g')"
    by (metis prod_cases3)
  have "integrity db'"
  proof (cases "db' = db")
    case True
    with inv show ?thesis by simp
  next
    case False
    with ReassignReviewer_state [OF run] obtain pr members where
      get: "Repository_GetPRByID prID db = (Inr pr, db)"
      and ne: "reassignCandidates pr members \<noteq> []"
      and rep: "Repository_ReplaceReviewer prID oldUserID
             (UserID (reassignCandidates pr members !
                   fst (Intn rnd (length (reassignCandidates pr members)) g))) db = (None, db')"
      by blast
    let ?new = "UserID (reassignCandidates pr members !
                   fst (Intn rnd (length (reassignCandidates pr members)) g))"
    from GetPRByID_Inr [OF get] obtain p where p: "p \<in> set (pull_requests db)"
      "pull_request_id p = prID" "w_AuthorID pr = author_id p" by auto
    from inv have d: "distinct (map pull_request_id (pull_requests db))"
      by (simp add: integrity_def)
    have "\<forall>q \<in> set (pull_requests db). pull_request_id q = prID \<longrightarrow> author_id q \<noteq> ?new"
    proof (intro ballI impI)
      fix q assume q: "q \<in> set (pull_requests db)" "pull_request_id q = prID"
      from d have "inj_on pull_request_id (set (pull_requests db))" by (simp add: distinct_map)
      with q p(1,2) have "q = p" by (auto dest: inj_onD)
      moreover from candidate_not_excluded [OF ne, of rnd g] have "?new \<noteq> w_AuthorID pr" by simp
      ultimately show "author_id q \<noteq> ?new" using p(3) by simp
    qed
    then show ?thesis by (rule integrity_ReplaceReviewer [OF inv rep])
  qed
  with run show ?thesis by simp
qed

lemma reachable_integrity: "reachable db \<Longrightarrow> integrity db"
proof (induction rule: reachable.induct)
  case (reach_empty t u)
  show ?case by (rule integrity_empty)
next
  case (reach_environment db t u)
  from reach_environment.IH show ?case by (simp add: integrity_def)
next
  case (reach_CreateTeam db team)
  from reach_CreateTeam.IH show ?case by (rule integrity_service_CreateTeam)
next
  case (reach_SetUserActive db userID isActive)
  from reach_SetUserActive.IH show ?case by (rule integrity_service_SetUserActive)
next
  case (reach_CreatePR db rnd prID prName authorID g)
  from reach_CreatePR.IH show ?case by (rule integrity_service_CreatePR)
next
  case (reach_MergePR db now prID)
  from reach_MergePR.IH show ?case by (rule integrity_service_MergePR)
next
  case (reach_ReassignReviewer db rnd prID oldUserID g)
  from reach_ReassignReviewer.IH show ?case by (rule integrity_service_ReassignReviewer)
qed

lemma integrity_GetPRByID:
  assumes inv: "integrity db" and get: "Repository_GetPRByID prID db = (Inr pr, s)"
  shows "w_AuthorID pr \<notin> set (AssignedReviewers pr) \<and> distinct (AssignedReviewers pr)"
proof -
  from GetPRByID_Inr [OF get] obtain p where p: "p \<in> set (pull_requests db)"
    "pull_request_id p = prID" "w_AuthorID pr = author_id p"
    and rs: "AssignedReviewers pr = map snd (filter (\<lambda>r. fst r = prID) (pr_reviewers db))"
    by auto
  from inv have d: "distinct (pr_reviewers db)"
    and a: "\<forall>p \<in> set (pull_requests db). (pull_request_id p, author_id p) \<notin> set (pr_reviewers db)"
    by (simp_all add: integrity_def)
  have "inj_on snd (set (filter (\<lambda>r. fst r = prID) (pr_reviewers db)))"
    by (auto simp: inj_on_def)
  with d have "distinct (AssignedReviewers pr)" by (simp add: rs distinct_map)
  moreover from a p have "(prID, w_AuthorID pr) \<notin> set (pr_reviewers db)" by auto
  then have "w_AuthorID pr \<notin> set (AssignedReviewers pr)" by (auto simp: rs)
  ultimately show ?thesis by simp
qed

lemma no_rows_of_unknown_pr:
  assumes inv: "integrity db" and new: "prID \<notin> pull_request_id ` set (pull_requests db)"
  shows "filter (\<lambda>r. fst r = prID) (pr_reviewers db) = []"
proof -
  from inv have "\<forall>r \<in> set (pr_reviewers db). fst r \<in> pull_request_id ` set (pull_requests db)"
    by (simp add: integrity_def)
  with new have "\<forall>r \<in> set (pr_reviewers db). fst r \<noteq> prID" by auto
  then show ?thesis by (simp add: filter_empty_conv)
qed

lemma CreatePR_result:
  assumes inv: "integrity db"
      and run: "CreatePR Repository rnd prID prName authorID (db, g) = (Inr created, db', g')"
  shows "Repository_GetPRByID prID db' = (Inr created, db') \<and> w_AuthorID created = authorID \<and>
         authorID \<notin> set (AssignedReviewers created) \<and> distinct (AssignedReviewers created) \<and>
         length (AssignedReviewers created) = 2 \<and>
         length (filter (\<lambda>r. fst r = prID) (pr_reviewers db')) = 2"
proof -
  let ?pr = "\<lparr>PullRequestID = prID, PullRequestName = prName,
              AuthorID = authorID, Status = StatusOpen, CreatedAt = 0, MergedAt = None\<rparr>"
  from CreatePR_success [OF run] obtain members reviewers where
    sel: "selectReviewers rnd members authorID 2 g = (Some reviewers, g')"
    and len: "length reviewers = 2"
    and ins: "Repository_CreatePR ?pr reviewers db = (None, db')"
    and get: "Repository_GetPRByID prID db' = (Inr created, db')"
    by blast
  from Repository_CreatePR_success [OF ins] have
    prs: "pull_requests db' = pull_requests db @
            [\<lparr>pull_request_id = prID, pull_request_name = prName,
              author_id = authorID, status = StatusOpen,
              created_at = server_now db, merged_at = None\<rparr>]"
    and rvs: "pr_reviewers db' = pr_reviewers db @ map (Pair prID) reviewers"
    and unused: "prID \<notin> pull_request_id ` set (pull_requests db)"
    by simp_all
  have rows: "filter (\<lambda>r. fst r = prID) (pr_reviewers db') = map (Pair prID) reviewers"
    using no_rows_of_unknown_pr [OF inv unused] by (simp add: rvs filter_map o_def)
  from GetPRByID_Inr [OF get] obtain p where p: "p \<in> set (pull_requests db')"
    "pull_request_id p = prID" "w_AuthorID created = author_id p"
    and rs: "AssignedReviewers created = map snd (filter (\<lambda>r. fst r = prID) (pr_reviewers db'))"
    by auto
  from p(1) consider (old) "p \<in> set (pull_requests db)"
    | (new) "p = \<lparr>pull_request_id = prID, pull_request_name = prName,
              author_id = authorID, status = StatusOpen,
              created_at = server_now db, merged_at = None\<rparr>"
    unfolding prs by auto
  then have "author_id p = authorID"
  proof cases
    case old
    then have "pull_request_id p \<in> pull_request_id ` set (pull_requests db)" by (rule imageI)
    with unused p(2) show ?thesis by simp
  next
    case new
    have "author_id \<lparr>pull_request_id = prID, pull_request_name = prName,
              author_id = authorID, status = StatusOpen,
              created_at = server_now db, merged_at = None\<rparr> = authorID" by simp
    with new show ?thesis by simp
  qed
  with p(3) have author: "w_AuthorID created = authorID" by simp
  from rs rows have eq: "AssignedReviewers created = reviewers" by (simp add: o_def)
  from selectReviewers_excludes(1) [OF sel] have "authorID \<notin> set reviewers" .
  moreover from Repository_CreatePR_success [OF ins] have "distinct reviewers" by simp
  ultimately show ?thesis using get author eq len rows by simp
qed

subsection \<open>Merging\<close>

lemma MergePR_merged:
  assumes nonnil: "prID \<noteq> uuid_Nil"
      and get: "r_GetPRByID repo prID s = (Inr pr, s1)"
      and merged: "w_Status pr = StatusMerged"
  shows "MergePR (Recording repo) now prID (s, []) = (Inr pr, s1, [CallGetPRByID prID])"
  using assms by (simp add: MergePR_def)

lemma UpdatePRStatus_stored:
  assumes d: "distinct (map pull_request_id (pull_requests db))"
      and p: "p \<in> set (pull_requests db)"
  shows "Repository_GetPRByID (pull_request_id p)
           (snd (Repository_UpdatePRStatus (pull_request_id p) st m db)) =
         (Inr \<lparr>w_PullRequestID = pull_request_id p, w_PullRequestName = pull_request_name p,
               w_AuthorID = author_id p, w_Status = st,
               AssignedReviewers =
                 map snd (filter (\<lambda>r. fst r = pull_request_id p) (pr_reviewers db)),
               w_CreatedAt = created_at p, w_MergedAt = m\<rparr>,
          snd (Repository_UpdatePRStatus (pull_request_id p) st m db))"
proof -
  let ?f = "\<lambda>q. if pull_request_id q = pull_request_id p then q\<lparr>status := st, merged_at := m\<rparr> else q"
  let ?db = "db\<lparr>pull_requests := map ?f (pull_requests db)\<rparr>"
  have upd: "snd (Repository_UpdatePRStatus (pull_request_id p) st m db) = ?db"
    by (simp add: Repository_UpdatePRStatus_def)
  have ids: "map pull_request_id (map ?f ps) = map pull_request_id ps" for ps
    by (induction ps) simp_all
  have prs: "pull_requests ?db = map ?f (pull_requests db)" by simp
  have d': "distinct (map pull_request_id (pull_requests ?db))"
    unfolding prs ids using d .
  have p': "?f p \<in> set (pull_requests ?db)" using p by simp
  have "Repository_GetPRByID (pull_request_id (?f p)) ?db =
      (Inr \<lparr>w_PullRequestID = pull_request_id (?f p), w_PullRequestName = pull_request_name (?f p),
                 w_AuthorID = author_id (?f p), w_Status = status (?f p),
                 AssignedReviewers =
                   map snd (filter (\<lambda>r. fst r = pull_request_id (?f p)) (pr_reviewers ?db)),
                 w_CreatedAt = created_at (?f p), w_MergedAt = merged_at (?f p)\<rparr>, ?db)"
    using d' p' by (rule GetPRByID_stored)
  then show ?thesis unfolding upd by simp
qed

subsection \<open>Runs on the example data\<close>

lemma teamOnly_run: "snd (CreateTeam Repository exampleTeam (emptyDatabase 0 100)) = teamOnly"
  by code_simp

lemma withOpenPR_run:
  "CreatePR Repository counterRand 10 ''Feature'' 1 (teamOnly, 0) = (Inr (openPR [4, 3]), withOpenPR, 2)"
  by code_simp

lemma withMergedPR_run: "MergePR Repository 7 10 withOpenPR = (Inr mergedPR, withMergedPR)"
  by code_simp

lemma reassign_run:
  "ReassignReviewer Repository counterRand 10 4 (withOpenPR, 5) =
     (Inr (openPR [2, 3], 2), withOpenPR\<lparr>pr_reviewers := [(10, 2), (10, 3)]\<rparr>, 6)"
  by code_simp

lemma reachable_teamOnly: "reachable teamOnly"
  using reach_CreateTeam [OF reach_empty, of exampleTeam 0 100] by (simp add: teamOnly_run)

lemma reachable_withOpenPR: "reachable withOpenPR"
  using reach_CreatePR [OF reachable_teamOnly, of counterRand 10 "''Feature''" 1 0]
  by (simp add: withOpenPR_run)

lemma reachable_withMergedPR: "reachable withMergedPR"
  using reach_MergePR [OF reachable_withOpenPR, of 7 10] by (simp add: withMergedPR_run)

lemma ten_not_nil: "(10::uuid) \<noteq> uuid_Nil" "(4::uuid) \<noteq> uuid_Nil" "(2::uuid) \<noteq> uuid_Nil"
  by (simp_all add: uuid_Nil_def)

subsection \<open>One list of draws for every ordering\<close>

lemma Intn_scripted: "j \<le> i \<Longrightarrow> Intn scripted (Suc i) (j # js) = (j, js)"
  by (simp add: Intn_def scripted_def)

lemma shuffleFrom_scripted_Suc:
  "j \<le> Suc i \<Longrightarrow>
   shuffleFrom scripted (Suc i) xs (j # js) = shuffleFrom scripted i (swap (Suc i) j xs) js"
  by (simp add: Intn_scripted)

lemma nth_swap_other: "k \<noteq> i \<Longrightarrow> k \<noteq> j \<Longrightarrow> swap i j xs ! k = xs ! k"
  by (simp add: swap_def)

lemma nth_swap_first: "i < length xs \<Longrightarrow> j < length xs \<Longrightarrow> swap i j xs ! i = xs ! j"
  by (cases "i = j") (simp_all add: swap_def)

lemma distinct_swap: "i < length xs \<Longrightarrow> j < length xs \<Longrightarrow> distinct (swap i j xs) = distinct xs"
  using mset_swap' [of i xs j] by (rule mset_eq_imp_distinct_iff)

lemma length_shuffleFrom: "length (fst (shuffleFrom rnd i xs g)) = length xs"
  by (induction i arbitrary: xs g) (simp_all split: prod.splits)

lemma nth_shuffleFrom_above:
  "i < k \<Longrightarrow> k < length xs \<Longrightarrow> fst (shuffleFrom rnd i xs g) ! k = xs ! k"
proof (induction i arbitrary: xs g)
  case 0
  show ?case by simp
next
  case (Suc i)
  obtain j g' where jg: "Intn rnd (Suc i + 1) g = (j, g')" by (cases "Intn rnd (Suc i + 1) g")
  have "fst (Intn rnd (Suc i + 1) g) < Suc i + 1" by (rule Intn_less) simp
  with jg Suc.prems have j: "j \<noteq> k" by simp
  from Suc.prems have "fst (shuffleFrom rnd i (swap (Suc i) j xs) g') ! k = swap (Suc i) j xs ! k"
    by (intro Suc.IH) simp_all
  also have "\<dots> = xs ! k" using Suc.prems j by (intro nth_swap_other) simp_all
  finally show ?case using jg by simp
qed

lemma nth_shuffleFrom_top:
  assumes "Suc i < length xs" and "j \<le> Suc i"
  shows "fst (shuffleFrom scripted (Suc i) xs (j # js)) ! Suc i = xs ! j"
proof -
  have "fst (shuffleFrom scripted i (swap (Suc i) j xs) js) ! Suc i = swap (Suc i) j xs ! Suc i"
    using assms by (intro nth_shuffleFrom_above) simp_all
  also have "\<dots> = xs ! j" using assms by (intro nth_swap_first) simp_all
  finally show ?thesis using assms by (simp add: Intn_scripted)
qed

lemma shuffleFrom_inj:
  assumes "distinct xs" "i < length xs" "drawsFrom i js" "drawsFrom i js'"
      and "fst (shuffleFrom scripted i xs js) = fst (shuffleFrom scripted i xs js')"
  shows "js = js'"
  using assms
proof (induction i arbitrary: xs js js')
  case 0
  then show ?case by simp
next
  case (Suc i)
  from Suc.prems(3) obtain j r where js: "js = j # r" "j \<le> Suc i" "drawsFrom i r"
    by (cases js) auto
  from Suc.prems(4) obtain j' r' where js': "js' = j' # r'" "j' \<le> Suc i" "drawsFrom i r'"
    by (cases js') auto
  from Suc.prems(2) js(2) js'(2) have lt: "j < length xs" "j' < length xs" by simp_all
  have "xs ! j = fst (shuffleFrom scripted (Suc i) xs (j # r)) ! Suc i"
    using Suc.prems(2) js(2) by (simp add: nth_shuffleFrom_top del: shuffleFrom.simps)
  also have "\<dots> = fst (shuffleFrom scripted (Suc i) xs (j' # r')) ! Suc i"
    using Suc.prems(5) js(1) js'(1) by simp
  also have "\<dots> = xs ! j'"
    using Suc.prems(2) js'(2) by (simp add: nth_shuffleFrom_top del: shuffleFrom.simps)
  finally have "j = j'" using Suc.prems(1) lt by (simp add: nth_eq_iff_index_eq)
  moreover have "r = r'"
  proof (rule Suc.IH)
    show "distinct (swap (Suc i) j xs)" using Suc.prems(1,2) lt by (simp add: distinct_swap)
    show "i < length (swap (Suc i) j xs)" using Suc.prems(2) by simp
    show "drawsFrom i r" by (rule js(3))
    show "drawsFrom i r'" by (rule js'(3))
    show "fst (shuffleFrom scripted i (swap (Suc i) j xs) r) =
          fst (shuffleFrom scripted i (swap (Suc i) j xs) r')"
      using Suc.prems(5) js js' \<open>j = j'\<close> by (simp add: Intn_scripted)
  qed
  ultimately show ?case using js(1) js'(1) by simp
qed

lemma agree_from_one:
  assumes m: "mset ys = mset xs" and a: "\<forall>k. 0 < k \<longrightarrow> k < length xs \<longrightarrow> ys ! k = xs ! k"
  shows "ys = xs"
proof (cases xs)
  case Nil
  with m show ?thesis by simp
next
  case (Cons x xs')
  from m have len: "length ys = length xs" by (metis size_mset)
  with Cons obtain y ys' where ys: "ys = y # ys'" by (cases ys) auto
  have "ys' = xs'"
  proof (rule nth_equalityI)
    show "length ys' = length xs'" using len Cons ys by simp
    fix k assume "k < length ys'"
    with a [rule_format, of "Suc k"] len Cons ys show "ys' ! k = xs' ! k" by simp
  qed
  with m Cons ys show ?thesis by simp
qed

lemma shuffleFrom_surj:
  assumes "distinct xs" "i < length xs" "mset ys = mset xs"
      and "\<forall>k. i < k \<longrightarrow> k < length xs \<longrightarrow> ys ! k = xs ! k"
  shows "\<exists>js. drawsFrom i js \<and> fst (shuffleFrom scripted i xs js) = ys"
  using assms
proof (induction i arbitrary: xs)
  case 0
  from agree_from_one [OF 0(3)] 0(4) have "ys = xs" by simp
  then show ?case by (intro exI [of _ "[]"]) simp
next
  case (Suc i)
  from Suc.prems(3) have len: "length ys = length xs" by (metis size_mset)
  from Suc.prems(1,3) have dys: "distinct ys" by (metis mset_eq_imp_distinct_iff)
  have "ys ! Suc i \<in> set ys" using Suc.prems(2) len by simp
  also have "set ys = set xs" using Suc.prems(3) by (metis set_mset_mset)
  finally obtain j where j: "j < length xs" "xs ! j = ys ! Suc i"
    by (auto simp: in_set_conv_nth)
  have jle: "j \<le> Suc i"
  proof (rule ccontr)
    assume "\<not> j \<le> Suc i"
    then have gt: "Suc i < j" by simp
    with Suc.prems(4) j(1) have "ys ! j = xs ! j" by simp
    with j(2) have "ys ! j = ys ! Suc i" by simp
    with dys j(1) Suc.prems(2) len have "j = Suc i" by (simp add: nth_eq_iff_index_eq)
    with gt show False by simp
  qed
  let ?xs = "swap (Suc i) j xs"
  have "\<exists>js. drawsFrom i js \<and> fst (shuffleFrom scripted i ?xs js) = ys"
  proof (rule Suc.IH)
    show "distinct ?xs" using Suc.prems(1,2) j(1) by (simp add: distinct_swap)
    show "i < length ?xs" using Suc.prems(2) by simp
    show "mset ys = mset ?xs" using Suc.prems(2,3) j(1) by (simp add: mset_swap')
    show "\<forall>k. i < k \<longrightarrow> k < length ?xs \<longrightarrow> ys ! k = ?xs ! k"
    proof (intro allI impI)
      fix k assume k: "i < k" "k < length ?xs"
      show "ys ! k = ?xs ! k"
      proof (cases "k = Suc i")
        case True
        with Suc.prems(2) j show ?thesis by (simp add: nth_swap_first)
      next
        case False
        with k jle have "k \<noteq> Suc i" "k \<noteq> j" "Suc i < k" by simp_all
        with Suc.prems(4) k(2) show ?thesis by (simp add: nth_swap_other)
      qed
    qed
  qed
  then obtain js where js: "drawsFrom i js" "fst (shuffleFrom scripted i ?xs js) = ys" by blast
  with jle have "drawsFrom (Suc i) (j # js) \<and> fst (shuffleFrom scripted (Suc i) xs (j # js)) = ys"
    by (simp add: Intn_scripted)
  then show ?case by blast
qed

lemma Shuffle_one_script_per_order:
  assumes d: "distinct xs" and m: "mset ys = mset xs"
  shows "\<exists>!js. drawsFrom (length xs - 1) js \<and> fst (Shuffle scripted xs js) = ys"
proof (cases xs)
  case Nil
  with m show ?thesis by (auto simp: Shuffle_def)
next
  case (Cons x xs')
  then have i: "length xs - 1 < length xs" by simp
  have "\<forall>k. length xs - 1 < k \<longrightarrow> k < length xs \<longrightarrow> ys ! k = xs ! k" by auto
  from shuffleFrom_surj [OF d i m this] obtain js where
    js: "drawsFrom (length xs - 1) js" "fst (Shuffle scripted xs js) = ys"
    unfolding Shuffle_def by blast
  show ?thesis
  proof (rule ex1I [of _ js])
    show "drawsFrom (length xs - 1) js \<and> fst (Shuffle scripted xs js) = ys" using js by simp
  next
    fix js' assume "drawsFrom (length xs - 1) js' \<and> fst (Shuffle scripted xs js') = ys"
    with js show "js' = js"
      unfolding Shuffle_def by (intro shuffleFrom_inj [OF d i]) simp_all
  qed
qed

section \<open>The claims\<close>

text \<open>
  C1. In every state the service can reach, a successful \<open>CreatePR\<close> returns the pull
  request as it is stored afterwards, with the given author, and a successful
  \<open>ReassignReviewer\<close> returns the pull request as it is stored afterwards; in both the
  author's id is not among the assigned reviewers and no reviewer id occurs twice.
\<close>

theorem reviewers_exclude_author_and_are_distinct:
  assumes "reachable db"
  shows "(CreatePR Repository rnd prID prName authorID (db, g) = (Inr created, db', g') \<longrightarrow>
            Repository_GetPRByID prID db' = (Inr created, db') \<and>
            w_AuthorID created = authorID \<and>
            authorID \<notin> set (AssignedReviewers created) \<and>
            distinct (AssignedReviewers created)) \<and>
         (ReassignReviewer Repository rnd prID oldUserID (db, g) =
            (Inr (updated, newUserID), db'', g'') \<longrightarrow>
            Repository_GetPRByID prID db'' = (Inr updated, db'') \<and>
            w_AuthorID updated \<notin> set (AssignedReviewers updated) \<and>
            distinct (AssignedReviewers updated))"
proof (intro conjI impI)
  from assms have inv: "integrity db" by (rule reachable_integrity)
  {
    assume run: "CreatePR Repository rnd prID prName authorID (db, g) = (Inr created, db', g')"
    from CreatePR_result [OF inv run]
    show "Repository_GetPRByID prID db' = (Inr created, db')"
      and "w_AuthorID created = authorID"
      and "authorID \<notin> set (AssignedReviewers created)"
      and "distinct (AssignedReviewers created)"
      by simp_all
  }
  {
    assume run: "ReassignReviewer Repository rnd prID oldUserID (db, g) =
            (Inr (updated, newUserID), db'', g'')"
    from integrity_service_ReassignReviewer [OF inv, of rnd prID oldUserID g] run
    have inv': "integrity db''" by simp
    from ReassignReviewer_success [OF run] obtain s4 where
      "Repository_GetPRByID prID s4 = (Inr updated, db'')" by auto
    with read_state(4) [OF this] have get: "Repository_GetPRByID prID db'' = (Inr updated, db'')"
      by simp
    then show "Repository_GetPRByID prID db'' = (Inr updated, db'')" .
    from integrity_GetPRByID [OF inv' get]
    show "w_AuthorID updated \<notin> set (AssignedReviewers updated)"
      and "distinct (AssignedReviewers updated)" by simp_all
  }
qed

theorem reviewers_exclude_author_and_are_distinct_witness:
  "reachable teamOnly \<and>
   CreatePR Repository counterRand 10 ''Feature'' 1 (teamOnly, 0) =
     (Inr (openPR [4, 3]), withOpenPR, 2) \<and>
   (1::uuid) \<notin> set (AssignedReviewers (openPR [4, 3])) \<and>
   distinct (AssignedReviewers (openPR [4, 3])) \<and>
   reachable withOpenPR \<and>
   ReassignReviewer Repository counterRand 10 4 (withOpenPR, 5) =
     (Inr (openPR [2, 3], 2), withOpenPR\<lparr>pr_reviewers := [(10, 2), (10, 3)]\<rparr>, 6) \<and>
   w_AuthorID (openPR [2, 3]) \<notin> set (AssignedReviewers (openPR [2, 3])) \<and>
   distinct (AssignedReviewers (openPR [2, 3]))"
proof -
  note create = reviewers_exclude_author_and_are_distinct
    [OF reachable_teamOnly, THEN conjunct1, THEN mp, OF withOpenPR_run]
  note reassign = reviewers_exclude_author_and_are_distinct
    [OF reachable_withOpenPR, THEN conjunct2, THEN mp, OF reassign_run]
  from create reassign reachable_teamOnly reachable_withOpenPR withOpenPR_run reassign_run
  show ?thesis by blast
qed

text \<open>
  C2. For a stored pull request of a reachable state: when its status is \<open>merged\<close>,
  \<open>MergePR\<close> returns the current record without error, leaves the database as it is
  and calls the repository once, to read the pull request (no \<open>UpdatePRStatus\<close>);
  when it is not, \<open>MergePR\<close> returns it with status \<open>merged\<close> and \<open>merged_at\<close>
  set to the current time, and a second \<open>MergePR\<close> at any later time returns the same
  record, \<open>merged_at\<close> unchanged, and leaves the database as the first call left it.
\<close>

theorem MergePR_idempotent:
  assumes reach: "reachable db" and stored: "p \<in> set (pull_requests db)"
  shows "(status p = StatusMerged \<longrightarrow>
            (\<exists>current.
               MergePR (Recording Repository) now (pull_request_id p) (db, []) =
                 (Inr current, db, [CallGetPRByID (pull_request_id p)]) \<and>
               Repository_GetPRByID (pull_request_id p) db = (Inr current, db) \<and>
               w_Status current = StatusMerged \<and> w_MergedAt current = merged_at p)) \<and>
         (status p \<noteq> StatusMerged \<longrightarrow>
            (\<exists>merged db1.
               MergePR Repository now (pull_request_id p) db = (Inr merged, db1) \<and>
               w_Status merged = StatusMerged \<and> w_MergedAt merged = Some now \<and>
               MergePR Repository later (pull_request_id p) db1 = (Inr merged, db1)))"
proof (intro conjI impI)
  let ?id = "pull_request_id p"
  from reach have inv: "integrity db" by (rule reachable_integrity)
  then have d: "distinct (map pull_request_id (pull_requests db))"
    and nonnil: "?id \<noteq> uuid_Nil"
    using stored by (simp_all add: integrity_def)
  let ?current = "\<lparr>w_PullRequestID = ?id, w_PullRequestName = pull_request_name p,
                 w_AuthorID = author_id p, w_Status = status p,
                 AssignedReviewers = map snd (filter (\<lambda>r. fst r = ?id) (pr_reviewers db)),
                 w_CreatedAt = created_at p, w_MergedAt = merged_at p\<rparr>"
  have get: "Repository_GetPRByID ?id db = (Inr ?current, db)"
    using d stored by (rule GetPRByID_stored)
  {
    assume m: "status p = StatusMerged"
    have "MergePR (Recording Repository) now ?id (db, []) = (Inr ?current, db, [CallGetPRByID ?id])"
      by (rule MergePR_merged) (use nonnil get m in simp_all)
    with get m show "\<exists>current.
               MergePR (Recording Repository) now ?id (db, []) =
                 (Inr current, db, [CallGetPRByID ?id]) \<and>
               Repository_GetPRByID ?id db = (Inr current, db) \<and>
               w_Status current = StatusMerged \<and> w_MergedAt current = merged_at p"
      by (intro exI [of _ ?current]) simp
  }
  {
    assume o: "status p \<noteq> StatusMerged"
    define db1 where "db1 = snd (Repository_UpdatePRStatus ?id StatusMerged (Some now) db)"
    let ?merged = "\<lparr>w_PullRequestID = ?id, w_PullRequestName = pull_request_name p,
                 w_AuthorID = author_id p, w_Status = StatusMerged,
                 AssignedReviewers = map snd (filter (\<lambda>r. fst r = ?id) (pr_reviewers db)),
                 w_CreatedAt = created_at p, w_MergedAt = Some now\<rparr>"
    have upd: "Repository_UpdatePRStatus ?id StatusMerged (Some now) db = (None, db1)"
      by (simp add: db1_def Repository_UpdatePRStatus_def)
    have get1: "Repository_GetPRByID ?id db1 = (Inr ?merged, db1)"
      unfolding db1_def using d stored by (rule UpdatePRStatus_stored)
    have first: "MergePR Repository now ?id db = (Inr ?merged, db1)"
      unfolding MergePR_def using nonnil o by (simp add: get upd get1)
    have second: "MergePR Repository later ?id db1 = (Inr ?merged, db1)"
      unfolding MergePR_def using nonnil by (simp add: get1)
    from first second show "\<exists>merged db1.
               MergePR Repository now ?id db = (Inr merged, db1) \<and>
               w_Status merged = StatusMerged \<and> w_MergedAt merged = Some now \<and>
               MergePR Repository later ?id db1 = (Inr merged, db1)"
      by (intro exI [of _ ?merged] exI [of _ db1]) simp
  }
qed

theorem MergePR_idempotent_witness:
  "reachable withOpenPR \<and> openRow \<in> set (pull_requests withOpenPR) \<and>
   status openRow \<noteq> StatusMerged \<and>
   (\<exists>merged db1.
      MergePR Repository 7 (pull_request_id openRow) withOpenPR = (Inr merged, db1) \<and>
      w_Status merged = StatusMerged \<and> w_MergedAt merged = Some 7 \<and>
      MergePR Repository 9 (pull_request_id openRow) db1 = (Inr merged, db1)) \<and>
   reachable withMergedPR \<and> mergedRow \<in> set (pull_requests withMergedPR) \<and>
   status mergedRow = StatusMerged \<and>
   (\<exists>current.
      MergePR (Recording Repository) 9 (pull_request_id mergedRow) (withMergedPR, []) =
        (Inr current, withMergedPR, [CallGetPRByID (pull_request_id mergedRow)]) \<and>
      Repository_GetPRByID (pull_request_id mergedRow) withMergedPR = (Inr current, withMergedPR) \<and>
      w_Status current = StatusMerged \<and> w_MergedAt current = merged_at mergedRow)"
proof -
  have o: "openRow \<in> set (pull_requests withOpenPR)" by (simp add: withOpenPR_def)
  have os: "status openRow \<noteq> StatusMerged" by (simp add: openRow_def StatusMerged_def)
  have m: "mergedRow \<in> set (pull_requests withMergedPR)" by (simp add: withMergedPR_def)
  have ms: "status mergedRow = StatusMerged" by (simp add: mergedRow_def StatusMerged_def)
  note first = MergePR_idempotent [OF reachable_withOpenPR o, THEN conjunct2, THEN mp, OF os,
      of 7 9]
  note again = MergePR_idempotent [OF reachable_withMergedPR m, THEN conjunct1, THEN mp, OF ms,
      of 9]
  from first again reachable_withOpenPR reachable_withMergedPR o os m ms
  show ?thesis by blast
qed

text \<open>
  C3. Against any repository: when the pull request is valid and new, the author and the
  author's team are found and fewer than two members are active and not the author,
  \<open>CreatePR\<close> fails with the validation error of the reviewer count, having made three
  reading calls and no writing call. Against the SQL repository in a reachable state, a
  successful \<open>CreatePR\<close> returns two reviewers and leaves exactly two reviewer rows
  for the pull request.
\<close>

theorem CreatePR_needs_two_candidates:
  "(ValidatePullRequest \<lparr>PullRequestID = prID, PullRequestName = prName, AuthorID = authorID,
       Status = StatusOpen, CreatedAt = 0, MergedAt = None\<rparr> = None \<and>
    r_PRExists repo prID s = (Inr False, s1) \<and>
    r_GetUserByID repo authorID s1 = (Inr author, s2) \<and>
    r_GetTeamMembers repo (TeamName author) s2 = (Inr members, s3) \<and>
    length (filter (\<lambda>m. UserID m \<noteq> authorID \<and> IsActive m) members) < 2 \<longrightarrow>
      CreatePR (Recording repo) rnd prID prName authorID ((s, []), g) =
        (Inl (Error ''validation error: not enough reviewers: minimum 2 required''),
         (s3, [CallPRExists prID, CallGetUserByID authorID,
               CallGetTeamMembers (TeamName author)]), g)) \<and>
   (reachable db \<and>
    CreatePR Repository rnd prID prName authorID (db, g) = (Inr created, db', g') \<longrightarrow>
      length (AssignedReviewers created) = 2 \<and>
      length (filter (\<lambda>r. fst r = prID) (pr_reviewers db')) = 2)"
proof (intro conjI impI)
  assume a: "ValidatePullRequest \<lparr>PullRequestID = prID, PullRequestName = prName, AuthorID = authorID,
       Status = StatusOpen, CreatedAt = 0, MergedAt = None\<rparr> = None \<and>
    r_PRExists repo prID s = (Inr False, s1) \<and>
    r_GetUserByID repo authorID s1 = (Inr author, s2) \<and>
    r_GetTeamMembers repo (TeamName author) s2 = (Inr members, s3) \<and>
    length (filter (\<lambda>m. UserID m \<noteq> authorID \<and> IsActive m) members) < 2"
  let ?c = "filter (\<lambda>m. UserID m \<noteq> authorID \<and> IsActive m) members"
  from a have few: "length ?c \<le> 1" by simp
  have sel: "selectReviewers rnd members authorID 2 g = (Some (map UserID ?c), g)"
    using few by (simp add: selectReviewers_nonneg Let_def Shuffle_single)
  have "ValidateReviewersCount (map UserID ?c) = Some ''not enough reviewers: minimum 2 required''"
    using few by (simp add: ValidateReviewersCount_def)
  with a sel show "CreatePR (Recording repo) rnd prID prName authorID ((s, []), g) =
        (Inl (Error ''validation error: not enough reviewers: minimum 2 required''),
         (s3, [CallPRExists prID, CallGetUserByID authorID,
               CallGetTeamMembers (TeamName author)]), g)"
    by (simp add: CreatePR_def)
next
  assume b: "reachable db \<and>
    CreatePR Repository rnd prID prName authorID (db, g) = (Inr created, db', g')"
  then have inv: "integrity db"
    and run: "CreatePR Repository rnd prID prName authorID (db, g) = (Inr created, db', g')"
    by (simp_all add: reachable_integrity)
  from CreatePR_result [OF inv run]
  show "length (AssignedReviewers created) = 2"
    and "length (filter (\<lambda>r. fst r = prID) (pr_reviewers db')) = 2" by simp_all
qed

theorem CreatePR_needs_two_candidates_witness:
  "CreatePR (Recording Repository) counterRand 11 ''Fix'' 1 ((onlyDaveFree, []), 0) =
     (Inl (Error ''validation error: not enough reviewers: minimum 2 required''),
      (onlyDaveFree, [CallPRExists 11, CallGetUserByID 1, CallGetTeamMembers ''backend'']), 0) \<and>
   reachable teamOnly \<and>
   CreatePR Repository counterRand 10 ''Feature'' 1 (teamOnly, 0) =
     (Inr (openPR [4, 3]), withOpenPR, 2) \<and>
   length (AssignedReviewers (openPR [4, 3])) = 2 \<and>
   length (filter (\<lambda>r. fst r = 10) (pr_reviewers withOpenPR)) = 2"
proof -
  have h: "ValidatePullRequest \<lparr>PullRequestID = 11, PullRequestName = ''Fix'', AuthorID = 1,
       Status = StatusOpen, CreatedAt = 0, MergedAt = None\<rparr> = None \<and>
    r_PRExists Repository 11 onlyDaveFree = (Inr False, onlyDaveFree) \<and>
    r_GetUserByID Repository 1 onlyDaveFree = (Inr (exampleUser 1 ''Alice'' True), onlyDaveFree) \<and>
    r_GetTeamMembers Repository (TeamName (exampleUser 1 ''Alice'' True)) onlyDaveFree =
      (Inr (exampleMembers False False), onlyDaveFree) \<and>
    length (filter (\<lambda>m. UserID m \<noteq> 1 \<and> IsActive m) (exampleMembers False False)) < 2"
    by code_simp
  have n: "TeamName (exampleUser 1 ''Alice'' True) = ''backend''" by (simp add: exampleUser_def)
  note few = CreatePR_needs_two_candidates [THEN conjunct1, THEN mp, OF h, of counterRand 0]
  note two = CreatePR_needs_two_candidates [THEN conjunct2, THEN mp,
      OF conjI [OF reachable_teamOnly withOpenPR_run]]
  from few two reachable_teamOnly withOpenPR_run show ?thesis unfolding n by blast
qed

text \<open>
  C4. With non-nil ids and the pull request found, \<open>ReassignReviewer\<close> returns
  \<open>PR_MERGED\<close> when the status is \<open>merged\<close>; otherwise \<open>NOT_ASSIGNED\<close> when the old
  reviewer is not among the assigned reviewers; otherwise, with the old reviewer and the
  team found, \<open>NO_CANDIDATE\<close> when every active member of the team is the author or an
  assigned reviewer. In each case the calls made on the repository are reads only.
\<close>

theorem ReassignReviewer_precondition_order:
  assumes ids: "prID \<noteq> uuid_Nil" "oldUserID \<noteq> uuid_Nil"
      and pr: "r_GetPRByID repo prID s = (Inr pr, s1)"
  shows "(w_Status pr = StatusMerged \<longrightarrow>
            ReassignReviewer (Recording repo) rnd prID oldUserID ((s, []), g) =
              (Inl (Error ''PR_MERGED''), (s1, [CallGetPRByID prID]), g)) \<and>
         (w_Status pr \<noteq> StatusMerged \<and> oldUserID \<notin> set (AssignedReviewers pr) \<longrightarrow>
            ReassignReviewer (Recording repo) rnd prID oldUserID ((s, []), g) =
              (Inl (Error ''NOT_ASSIGNED''), (s1, [CallGetPRByID prID]), g)) \<and>
         (w_Status pr \<noteq> StatusMerged \<and> oldUserID \<in> set (AssignedReviewers pr) \<and>
          r_GetUserByID repo oldUserID s1 = (Inr oldUser, s2) \<and>
          r_GetTeamMembers repo (TeamName oldUser) s2 = (Inr members, s3) \<and>
          (\<forall>m \<in> set members. IsActive m \<longrightarrow>
             UserID m = w_AuthorID pr \<or> UserID m \<in> set (AssignedReviewers pr)) \<longrightarrow>
            ReassignReviewer (Recording repo) rnd prID oldUserID ((s, []), g) =
              (Inl (Error ''NO_CANDIDATE''),
               (s3, [CallGetPRByID prID, CallGetUserByID oldUserID,
                     CallGetTeamMembers (TeamName oldUser)]), g))"
proof (intro conjI impI)
  assume "w_Status pr = StatusMerged"
  then show "ReassignReviewer (Recording repo) rnd prID oldUserID ((s, []), g) =
              (Inl (Error ''PR_MERGED''), (s1, [CallGetPRByID prID]), g)"
    using ids pr by (simp add: ReassignReviewer_def)
next
  assume "w_Status pr \<noteq> StatusMerged \<and> oldUserID \<notin> set (AssignedReviewers pr)"
  then show "ReassignReviewer (Recording repo) rnd prID oldUserID ((s, []), g) =
              (Inl (Error ''NOT_ASSIGNED''), (s1, [CallGetPRByID prID]), g)"
    using ids pr by (simp add: ReassignReviewer_def list_ex_iff)
next
  assume a: "w_Status pr \<noteq> StatusMerged \<and> oldUserID \<in> set (AssignedReviewers pr) \<and>
          r_GetUserByID repo oldUserID s1 = (Inr oldUser, s2) \<and>
          r_GetTeamMembers repo (TeamName oldUser) s2 = (Inr members, s3) \<and>
          (\<forall>m \<in> set members. IsActive m \<longrightarrow>
             UserID m = w_AuthorID pr \<or> UserID m \<in> set (AssignedReviewers pr))"
  then have "reassignCandidates pr members = []"
    by (auto simp: reassignCandidates_eq filter_empty_conv)
  with a show "ReassignReviewer (Recording repo) rnd prID oldUserID ((s, []), g) =
              (Inl (Error ''NO_CANDIDATE''),
               (s3, [CallGetPRByID prID, CallGetUserByID oldUserID,
                     CallGetTeamMembers (TeamName oldUser)]), g)"
    using ids pr by (simp add: ReassignReviewer_def list_ex_iff)
qed

theorem ReassignReviewer_precondition_order_witness:
  "ReassignReviewer (Recording Repository) counterRand 10 4 ((withMergedPR, []), 0) =
     (Inl (Error ''PR_MERGED''), (withMergedPR, [CallGetPRByID 10]), 0) \<and>
   ReassignReviewer (Recording Repository) counterRand 10 2 ((withOpenPR, []), 0) =
     (Inl (Error ''NOT_ASSIGNED''), (withOpenPR, [CallGetPRByID 10]), 0) \<and>
   ReassignReviewer (Recording Repository) counterRand 10 4 ((bobInactive, []), 0) =
     (Inl (Error ''NO_CANDIDATE''),
      (bobInactive, [CallGetPRByID 10, CallGetUserByID 4, CallGetTeamMembers ''backend'']), 0)"
proof -
  have m: "r_GetPRByID Repository 10 withMergedPR = (Inr mergedPR, withMergedPR)" by code_simp
  have ms: "w_Status mergedPR = StatusMerged" by code_simp
  have o: "r_GetPRByID Repository 10 withOpenPR = (Inr (openPR [4, 3]), withOpenPR)" by code_simp
  have os: "w_Status (openPR [4, 3]) \<noteq> StatusMerged \<and> 2 \<notin> set (AssignedReviewers (openPR [4, 3]))"
    by code_simp
  have b: "r_GetPRByID Repository 10 bobInactive = (Inr (openPR [4, 3]), bobInactive)" by code_simp
  have bs: "w_Status (openPR [4, 3]) \<noteq> StatusMerged \<and> 4 \<in> set (AssignedReviewers (openPR [4, 3])) \<and>
          r_GetUserByID Repository 4 bobInactive = (Inr (exampleUser 4 ''Dave'' True), bobInactive) \<and>
          r_GetTeamMembers Repository (TeamName (exampleUser 4 ''Dave'' True)) bobInactive =
            (Inr (exampleMembers False True), bobInactive) \<and>
          (\<forall>m \<in> set (exampleMembers False True). IsActive m \<longrightarrow>
             UserID m = w_AuthorID (openPR [4, 3]) \<or> UserID m \<in> set (AssignedReviewers (openPR [4, 3])))"
    by code_simp
  have n: "TeamName (exampleUser 4 ''Dave'' True) = ''backend''" by (simp add: exampleUser_def)
  note merged = ReassignReviewer_precondition_order
    [OF ten_not_nil(1) ten_not_nil(2) m, THEN conjunct1, THEN mp, OF ms, of counterRand 0]
  note unassigned = ReassignReviewer_precondition_order
    [OF ten_not_nil(1) ten_not_nil(3) o, THEN conjunct2, THEN conjunct1, THEN mp, OF os,
     of counterRand 0]
  note nobody = ReassignReviewer_precondition_order
    [OF ten_not_nil(1) ten_not_nil(2) b, THEN conjunct2, THEN conjunct2, THEN mp, OF bs,
     of counterRand 0]
  from merged unassigned nobody show ?thesis unfolding n by blast
qed

text \<open>
  C5. For a count \<open>maxCount \<ge> 0\<close>, \<open>selectReviewers\<close> keeps the members that are active
  and are not \<open>excludeID\<close>, shuffles them into a permutation of themselves and returns
  the ids of its first \<open>min maxCount (length candidates)\<close> entries; without candidates
  (or with \<open>maxCount = 0\<close>) it returns the empty list and draws nothing. The shuffle
  is uniform in this sense: every ordering of a list of distinct elements is the outcome
  of exactly one list of draws, so draws that are uniform and independent give every
  ordering the same probability.
\<close>

theorem selectReviewers_prefix_of_permutation:
  assumes "0 \<le> maxCount"
  shows "(let candidates = filter (\<lambda>m. IsActive m \<and> UserID m \<noteq> excludeID) members;
              shuffled = fst (Shuffle rnd candidates g)
          in mset shuffled = mset candidates \<and>
             (candidates \<noteq> [] \<and> maxCount \<noteq> 0 \<longrightarrow>
                selectReviewers rnd members excludeID maxCount g =
                  (Some (map UserID (take (min (nat maxCount) (length candidates)) shuffled)),
                   snd (Shuffle rnd candidates g))) \<and>
             (candidates = [] \<or> maxCount = 0 \<longrightarrow>
                selectReviewers rnd members excludeID maxCount g = (Some [], g))) \<and>
         (distinct xs \<and> mset ys = mset xs \<longrightarrow>
            (\<exists>!js. drawsFrom (length xs - 1) js \<and> fst (Shuffle scripted xs js) = ys))"
proof -
  have eq: "filter (\<lambda>m. IsActive m \<and> UserID m \<noteq> excludeID) members =
            filter (\<lambda>m. UserID m \<noteq> excludeID \<and> IsActive m) members"
    by (rule filter_cong) auto
  have selection:
    "let candidates = filter (\<lambda>m. IsActive m \<and> UserID m \<noteq> excludeID) members;
         shuffled = fst (Shuffle rnd candidates g)
     in mset shuffled = mset candidates \<and>
        (candidates \<noteq> [] \<and> maxCount \<noteq> 0 \<longrightarrow>
           selectReviewers rnd members excludeID maxCount g =
             (Some (map UserID (take (min (nat maxCount) (length candidates)) shuffled)),
              snd (Shuffle rnd candidates g))) \<and>
        (candidates = [] \<or> maxCount = 0 \<longrightarrow>
           selectReviewers rnd members excludeID maxCount g = (Some [], g))"
    unfolding Let_def eq
    using selectReviewers_nonneg [OF assms, of rnd members excludeID g]
    by (auto simp: Let_def Shuffle_mset)
  have orders: "distinct xs \<and> mset ys = mset xs \<longrightarrow>
      (\<exists>!js. drawsFrom (length xs - 1) js \<and> fst (Shuffle scripted xs js) = ys)"
    using Shuffle_one_script_per_order [of xs ys] by blast
  from selection orders show ?thesis by (rule conjI)
qed

theorem selectReviewers_prefix_of_permutation_witness:
  "(0::int) \<le> 2 \<and>
   filter (\<lambda>m. IsActive m \<and> UserID m \<noteq> 1) (exampleMembers True False) \<noteq> [] \<and>
   selectReviewers counterRand (exampleMembers True False) 1 2 0 =
     (Some (map UserID (take (min (nat 2)
         (length (filter (\<lambda>m. IsActive m \<and> UserID m \<noteq> 1) (exampleMembers True False))))
         (fst (Shuffle counterRand
            (filter (\<lambda>m. IsActive m \<and> UserID m \<noteq> 1) (exampleMembers True False)) 0)))),
      snd (Shuffle counterRand
            (filter (\<lambda>m. IsActive m \<and> UserID m \<noteq> 1) (exampleMembers True False)) 0)) \<and>
   selectReviewers counterRand (exampleMembers True False) 1 2 0 = (Some [4, 2], 1) \<and>
   distinct [2, 3, 4 :: uuid] \<and> mset [4, 2, 3 :: uuid] = mset [2, 3, 4] \<and>
   (\<exists>!js. drawsFrom (length [2, 3, 4 :: uuid] - 1) js \<and>
          fst (Shuffle scripted [2, 3, 4 :: uuid] js) = [4, 2, 3]) \<and>
   drawsFrom 2 [1, 0] \<and> fst (Shuffle scripted [2, 3, 4 :: uuid] [1, 0]) = [4, 2, 3]"
proof -
  have a: "(0::int) \<le> 2" by simp
  have c: "filter (\<lambda>m. IsActive m \<and> UserID m \<noteq> 1) (exampleMembers True False) \<noteq> []"
    by code_simp
  have v: "selectReviewers counterRand (exampleMembers True False) 1 2 0 = (Some [4, 2], 1)"
    by code_simp
  have d: "distinct [2, 3, 4 :: uuid] \<and> mset [4, 2, 3 :: uuid] = mset [2, 3, 4]"
    by simp
  have e: "drawsFrom 2 [1, 0] \<and> fst (Shuffle scripted [2, 3, 4 :: uuid] [1, 0]) = [4, 2, 3]"
    by code_simp
  note t = selectReviewers_prefix_of_permutation [OF a, where members = "exampleMembers True False"
      and excludeID = 1 and rnd = counterRand and g = 0]
  from t [THEN conjunct1] c
  have s: "selectReviewers counterRand (exampleMembers True False) 1 2 0 =
     (Some (map UserID (take (min (nat 2)
         (length (filter (\<lambda>m. IsActive m \<and> UserID m \<noteq> 1) (exampleMembers True False))))
         (fst (Shuffle counterRand
            (filter (\<lambda>m. IsActive m \<and> UserID m \<noteq> 1) (exampleMembers True False)) 0)))),
      snd (Shuffle counterRand
            (filter (\<lambda>m. IsActive m \<and> UserID m \<noteq> 1) (exampleMembers True False)) 0))"
    by (simp add: Let_def)
  from t [THEN conjunct2, THEN mp, OF d]
  have u: "\<exists>!js. drawsFrom (length [2, 3, 4 :: uuid] - 1) js \<and>
          fst (Shuffle scripted [2, 3, 4 :: uuid] js) = [4, 2, 3]" .
  from a c s v d u e show ?thesis by blast
qed

text \<open>
  C6, as the claim words it: a team is accepted exactly when its name is non-empty and at
  most 255 characters, it has a member, member ids are pairwise different, and every
  member has a non-nil id and a non-empty username of at most 255 characters. The team
  named by three spaces meets all of that and is rejected.
\<close>

theorem ValidateTeam_blank_name_counterexample:
  "spec_team_accepted blankTeam \<and> ValidateTeam blankTeam = Some ''team_name cannot be empty''"
  by (simp add: blankTeam_def spec_team_accepted_def ValidateTeam_def TrimSpace_def
      asciiSpace_def charCount_def uuid_Nil_def)

text \<open>
  C6, amended: for a team whose name and usernames are made of one-byte characters,
  \<open>ValidateTeam\<close> accepts exactly when the name is not blank (something is left after
  trimming white space) and at most 255 characters, the member list is non-empty, no two
  members share a user id, and every member has a non-nil id and a username that is not
  blank and at most 255 characters; a rejection carries the message of a constraint that
  is violated.
\<close>

theorem ValidateTeam_accepts_iff:
  assumes "charCount (t_TeamName team) = length (t_TeamName team)"
      and "list_all (\<lambda>m. charCount (m_Username m) = length (m_Username m)) (Members team)"
  shows "(ValidateTeam team = None \<longleftrightarrow>
            TrimSpace (t_TeamName team) \<noteq> [] \<and> charCount (t_TeamName team) \<le> 255 \<and>
            Members team \<noteq> [] \<and> distinct (map m_UserID (Members team)) \<and>
            list_all (\<lambda>m. m_UserID m \<noteq> uuid_Nil \<and> TrimSpace (m_Username m) \<noteq> [] \<and>
                           charCount (m_Username m) \<le> 255) (Members team)) \<and>
         (\<forall>e. ValidateTeam team = Some e \<longrightarrow>
            (e = ''team_name cannot be empty'' \<and> TrimSpace (t_TeamName team) = []) \<or>
            (e = ''team_name too long (max 255 characters)'' \<and> charCount (t_TeamName team) > 255) \<or>
            (e = ''team must have at least one member'' \<and> Members team = []) \<or>
            memberErrorMeans (\<lambda>_. False) (Members team) e)"
proof -
  have len: "\<forall>m \<in> set (Members team). charCount (m_Username m) = length (m_Username m)"
    using assms(2) by (simp add: list_all_iff)
  have accept: "ValidateTeam team = None \<longleftrightarrow>
            TrimSpace (t_TeamName team) \<noteq> [] \<and> charCount (t_TeamName team) \<le> 255 \<and>
            Members team \<noteq> [] \<and> distinct (map m_UserID (Members team)) \<and>
            list_all (\<lambda>m. m_UserID m \<noteq> uuid_Nil \<and> TrimSpace (m_Username m) \<noteq> [] \<and>
                           charCount (m_Username m) \<le> 255) (Members team)"
    using len assms(1)
    by (auto simp: ValidateTeam_def validateMembers_None ValidateTeamMember_None list_all_iff)
  have reject: "\<forall>e. ValidateTeam team = Some e \<longrightarrow>
            (e = ''team_name cannot be empty'' \<and> TrimSpace (t_TeamName team) = []) \<or>
            (e = ''team_name too long (max 255 characters)'' \<and> charCount (t_TeamName team) > 255) \<or>
            (e = ''team must have at least one member'' \<and> Members team = []) \<or>
            memberErrorMeans (\<lambda>_. False) (Members team) e"
    using assms(1) validateMembers_Some [of "\<lambda>_. False" "Members team"]
    by (auto simp: ValidateTeam_def split: if_splits)
  from accept reject show ?thesis by blast
qed

theorem ValidateTeam_accepts_iff_witness:
  "charCount (t_TeamName backendTeam) = length (t_TeamName backendTeam) \<and>
   list_all (\<lambda>m. charCount (m_Username m) = length (m_Username m)) (Members backendTeam) \<and>
   ValidateTeam backendTeam = None"
proof -
  have a: "charCount (t_TeamName backendTeam) = length (t_TeamName backendTeam)"
    by (simp add: backendTeam_def charCount_def)
  have b: "list_all (\<lambda>m. charCount (m_Username m) = length (m_Username m)) (Members backendTeam)"
    by (simp add: backendTeam_def charCount_def)
  have c: "TrimSpace (t_TeamName backendTeam) \<noteq> [] \<and> charCount (t_TeamName backendTeam) \<le> 255 \<and>
      Members backendTeam \<noteq> [] \<and> distinct (map m_UserID (Members backendTeam)) \<and>
      list_all (\<lambda>m. m_UserID m \<noteq> uuid_Nil \<and> TrimSpace (m_Username m) \<noteq> [] \<and>
                     charCount (m_Username m) \<le> 255) (Members backendTeam)"
    by (simp add: backendTeam_def charCount_def TrimSpace_def asciiSpace_def space2_def
        space3_def uuid_Nil_def)
  from ValidateTeam_accepts_iff [OF a b] c have "ValidateTeam backendTeam = None" by blast
  with a b show ?thesis by blast
qed

text \<open>
  C7. From the same generator state, \<open>selectReviewers\<close> returns the same result for any
  two inputs that have the same list of candidates, and two successful runs of
  \<open>ReassignReviewer\<close> whose candidate lists are the same pick the same new reviewer and
  leave the generator in the same state, whatever else the two repositories hold: the
  pick is the candidate at the index the generator draws below the number of candidates,
  and the generator is left as that one draw leaves it.
\<close>

theorem selection_is_determined_by_seed_and_candidates:
  "(filter (\<lambda>m. UserID m \<noteq> excludeID1 \<and> IsActive m) members1 =
    filter (\<lambda>m. UserID m \<noteq> excludeID2 \<and> IsActive m) members2 \<longrightarrow>
      selectReviewers rnd members1 excludeID1 maxCount g =
      selectReviewers rnd members2 excludeID2 maxCount g) \<and>
   (r_GetPRByID repo1 prID1 s1 = (Inr pr1, t1) \<and>
    r_GetUserByID repo1 old1 t1 = (Inr user1, u1) \<and>
    r_GetTeamMembers repo1 (TeamName user1) u1 = (Inr members1, v1) \<and>
    r_GetPRByID repo2 prID2 s2 = (Inr pr2, t2) \<and>
    r_GetUserByID repo2 old2 t2 = (Inr user2, u2) \<and>
    r_GetTeamMembers repo2 (TeamName user2) u2 = (Inr members2, v2) \<and>
    reassignCandidates pr1 members1 = reassignCandidates pr2 members2 \<and>
    ReassignReviewer repo1 rnd prID1 old1 (s1, g) = (Inr (updated1, new1), s1', g1) \<and>
    ReassignReviewer repo2 rnd prID2 old2 (s2, g) = (Inr (updated2, new2), s2', g2) \<longrightarrow>
      new1 = new2 \<and> g1 = g2 \<and>
      new1 = UserID (reassignCandidates pr1 members1 !
                       (fst (rnd (length (reassignCandidates pr1 members1)) g) mod
                        length (reassignCandidates pr1 members1))) \<and>
      g1 = snd (rnd (length (reassignCandidates pr1 members1)) g))"
proof (intro conjI impI)
  assume "filter (\<lambda>m. UserID m \<noteq> excludeID1 \<and> IsActive m) members1 =
    filter (\<lambda>m. UserID m \<noteq> excludeID2 \<and> IsActive m) members2"
  then show "selectReviewers rnd members1 excludeID1 maxCount g =
      selectReviewers rnd members2 excludeID2 maxCount g"
    by (simp add: selectReviewers_def)
next
  assume a: "r_GetPRByID repo1 prID1 s1 = (Inr pr1, t1) \<and>
    r_GetUserByID repo1 old1 t1 = (Inr user1, u1) \<and>
    r_GetTeamMembers repo1 (TeamName user1) u1 = (Inr members1, v1) \<and>
    r_GetPRByID repo2 prID2 s2 = (Inr pr2, t2) \<and>
    r_GetUserByID repo2 old2 t2 = (Inr user2, u2) \<and>
    r_GetTeamMembers repo2 (TeamName user2) u2 = (Inr members2, v2) \<and>
    reassignCandidates pr1 members1 = reassignCandidates pr2 members2 \<and>
    ReassignReviewer repo1 rnd prID1 old1 (s1, g) = (Inr (updated1, new1), s1', g1) \<and>
    ReassignReviewer repo2 rnd prID2 old2 (s2, g) = (Inr (updated2, new2), s2', g2)"
  let ?c1 = "reassignCandidates pr1 members1" and ?c2 = "reassignCandidates pr2 members2"
  from a have run1: "ReassignReviewer repo1 rnd prID1 old1 (s1, g) = (Inr (updated1, new1), s1', g1)"
    and run2: "ReassignReviewer repo2 rnd prID2 old2 (s2, g) = (Inr (updated2, new2), s2', g2)"
    and same: "?c1 = ?c2"
    by simp_all
  from ReassignReviewer_success [OF run1] a
  have n1: "new1 = UserID (?c1 ! fst (Intn rnd (length ?c1) g))"
    and g1: "g1 = snd (Intn rnd (length ?c1) g)" by auto
  from ReassignReviewer_success [OF run2] a
  have n2: "new2 = UserID (?c2 ! fst (Intn rnd (length ?c2) g))"
    and g2: "g2 = snd (Intn rnd (length ?c2) g)" by auto
  have draw: "fst (Intn rnd n g) = fst (rnd n g) mod n" "snd (Intn rnd n g) = snd (rnd n g)" for n
    by (simp_all add: Intn_def split: prod.splits)
  from n1 n2 g1 g2 same show "new1 = new2" and "g1 = g2" by simp_all
  from n1 show "new1 = UserID (?c1 ! (fst (rnd (length ?c1) g) mod length ?c1))"
    by (simp add: draw)
  from g1 show "g1 = snd (rnd (length ?c1) g)" by (simp add: draw)
qed

theorem selection_is_determined_by_seed_and_candidates_witness:
  "filter (\<lambda>m. UserID m \<noteq> 1 \<and> IsActive m) (exampleMembers True False) =
   filter (\<lambda>m. UserID m \<noteq> 3 \<and> IsActive m) (tl (exampleMembers True True)) \<and>
   selectReviewers counterRand (exampleMembers True False) 1 2 0 =
   selectReviewers counterRand (tl (exampleMembers True True)) 3 2 0 \<and>
   selectReviewers counterRand (exampleMembers True False) 1 2 0 = (Some [4, 2], 1) \<and>
   selectReviewers counterRand (exampleMembers True False) 1 2 1 = (Some [2, 4], 2) \<and>
   reassignCandidates (openPR [4, 3]) membersWithEve =
     [exampleUser 2 ''Bob'' True, exampleUser 5 ''Eve'' True] \<and>
   ReassignReviewer Repository counterRand 10 4 (withEve, 5) =
     (Inr (openPR [5, 3], 5), withEve\<lparr>pr_reviewers := [(10, 5), (10, 3)]\<rparr>, 6) \<and>
   ReassignReviewer Repository counterRand 10 3 (withEve\<lparr>server_now := 50\<rparr>, 5) =
     (Inr (openPR [4, 5], 5),
      withEve\<lparr>server_now := 50, pr_reviewers := [(10, 4), (10, 5)]\<rparr>, 6) \<and>
   ReassignReviewer Repository counterRand 10 4 (withEve, 4) =
     (Inr (openPR [2, 3], 2), withEve\<lparr>pr_reviewers := [(10, 2), (10, 3)]\<rparr>, 5) \<and>
   (5::uuid) =
     UserID (reassignCandidates (openPR [4, 3]) membersWithEve !
               (fst (counterRand (length (reassignCandidates (openPR [4, 3]) membersWithEve)) 5) mod
                length (reassignCandidates (openPR [4, 3]) membersWithEve))) \<and>
   (6::nat) = snd (counterRand (length (reassignCandidates (openPR [4, 3]) membersWithEve)) 5)"
proof -
  have f: "filter (\<lambda>m. UserID m \<noteq> 1 \<and> IsActive m) (exampleMembers True False) =
   filter (\<lambda>m. UserID m \<noteq> 3 \<and> IsActive m) (tl (exampleMembers True True))"
    by code_simp
  have v0: "selectReviewers counterRand (exampleMembers True False) 1 2 0 = (Some [4, 2], 1)"
    by code_simp
  have v1: "selectReviewers counterRand (exampleMembers True False) 1 2 1 = (Some [2, 4], 2)"
    by code_simp
  have c: "reassignCandidates (openPR [4, 3]) membersWithEve =
     [exampleUser 2 ''Bob'' True, exampleUser 5 ''Eve'' True]"
    by code_simp
  have run1: "ReassignReviewer Repository counterRand 10 4 (withEve, 5) =
     (Inr (openPR [5, 3], 5), withEve\<lparr>pr_reviewers := [(10, 5), (10, 3)]\<rparr>, 6)"
    by code_simp
  have run2: "ReassignReviewer Repository counterRand 10 3 (withEve\<lparr>server_now := 50\<rparr>, 5) =
     (Inr (openPR [4, 5], 5),
      withEve\<lparr>server_now := 50, pr_reviewers := [(10, 4), (10, 5)]\<rparr>, 6)"
    by code_simp
  have other: "ReassignReviewer Repository counterRand 10 4 (withEve, 4) =
     (Inr (openPR [2, 3], 2), withEve\<lparr>pr_reviewers := [(10, 2), (10, 3)]\<rparr>, 5)"
    by code_simp
  have h: "r_GetPRByID Repository 10 withEve = (Inr (openPR [4, 3]), withEve) \<and>
    r_GetUserByID Repository 4 withEve = (Inr (exampleUser 4 ''Dave'' True), withEve) \<and>
    r_GetTeamMembers Repository (TeamName (exampleUser 4 ''Dave'' True)) withEve =
      (Inr membersWithEve, withEve) \<and>
    r_GetPRByID Repository 10 (withEve\<lparr>server_now := 50\<rparr>) =
      (Inr (openPR [4, 3]), withEve\<lparr>server_now := 50\<rparr>) \<and>
    r_GetUserByID Repository 3 (withEve\<lparr>server_now := 50\<rparr>) =
      (Inr (exampleUser 3 ''Carol'' True), withEve\<lparr>server_now := 50\<rparr>) \<and>
    r_GetTeamMembers Repository (TeamName (exampleUser 3 ''Carol'' True))
        (withEve\<lparr>server_now := 50\<rparr>) =
      (Inr membersWithEve, withEve\<lparr>server_now := 50\<rparr>) \<and>
    reassignCandidates (openPR [4, 3]) membersWithEve =
      reassignCandidates (openPR [4, 3]) membersWithEve"
    by code_simp
  note sel = selection_is_determined_by_seed_and_candidates
    [THEN conjunct1, THEN mp, OF f, of counterRand 2 0]
  note pick = selection_is_determined_by_seed_and_candidates
    [THEN conjunct2, THEN mp, OF conjI [OF h [THEN conjunct1]
       conjI [OF h [THEN conjunct2, THEN conjunct1]
       conjI [OF h [THEN conjunct2, THEN conjunct2, THEN conjunct1]
       conjI [OF h [THEN conjunct2, THEN conjunct2, THEN conjunct2, THEN conjunct1]
       conjI [OF h [THEN conjunct2, THEN conjunct2, THEN conjunct2, THEN conjunct2, THEN conjunct1]
       conjI [OF h [THEN conjunct2, THEN conjunct2, THEN conjunct2, THEN conjunct2, THEN conjunct2, THEN conjunct1]
       conjI [OF h [THEN conjunct2, THEN conjunct2, THEN conjunct2, THEN conjunct2, THEN conjunct2, THEN conjunct2]
       conjI [OF run1 run2]]]]]]]]]
  from f sel v0 v1 c run1 run2 other pick show ?thesis by blast
qed

text \<open>
  C8. \<open>GetStatistics\<close> reads the pull request statistics, the assignment statistics per
  user, the number of users, of teams and of active users, in this order. When a read
  fails it returns that failure, with the name of the read in front, and no report; when
  all five succeed it returns the report made of their five results.
\<close>

theorem GetStatistics_first_failure_or_full_report:
  "(r_GetPRStats repo s = (Inl e, s1) \<longrightarrow>
      GetStatistics repo s = (Inl (Error (''failed to get PR stats: '' @ e)), s1)) \<and>
   (r_GetPRStats repo s = (Inr prStats, s1) \<and>
    r_GetUserAssignmentStats repo s1 = (Inl e, s2) \<longrightarrow>
      GetStatistics repo s = (Inl (Error (''failed to get user stats: '' @ e)), s2)) \<and>
   (r_GetPRStats repo s = (Inr prStats, s1) \<and>
    r_GetUserAssignmentStats repo s1 = (Inr userStats, s2) \<and>
    r_GetTotalUsers repo s2 = (Inl e, s3) \<longrightarrow>
      GetStatistics repo s = (Inl (Error (''failed to get total users: '' @ e)), s3)) \<and>
   (r_GetPRStats repo s = (Inr prStats, s1) \<and>
    r_GetUserAssignmentStats repo s1 = (Inr userStats, s2) \<and>
    r_GetTotalUsers repo s2 = (Inr totalUsers, s3) \<and>
    r_GetTotalTeams repo s3 = (Inl e, s4) \<longrightarrow>
      GetStatistics repo s = (Inl (Error (''failed to get total teams: '' @ e)), s4)) \<and>
   (r_GetPRStats repo s = (Inr prStats, s1) \<and>
    r_GetUserAssignmentStats repo s1 = (Inr userStats, s2) \<and>
    r_GetTotalUsers repo s2 = (Inr totalUsers, s3) \<and>
    r_GetTotalTeams repo s3 = (Inr totalTeams, s4) \<and>
    r_GetActiveUsers repo s4 = (Inl e, s5) \<longrightarrow>
      GetStatistics repo s = (Inl (Error (''failed to get active users: '' @ e)), s5)) \<and>
   (r_GetPRStats repo s = (Inr prStats, s1) \<and>
    r_GetUserAssignmentStats repo s1 = (Inr userStats, s2) \<and>
    r_GetTotalUsers repo s2 = (Inr totalUsers, s3) \<and>
    r_GetTotalTeams repo s3 = (Inr totalTeams, s4) \<and>
    r_GetActiveUsers repo s4 = (Inr activeUsers, s5) \<longrightarrow>
      GetStatistics repo s =
        (Inr \<lparr>st_PRStats = prStats, UserStats = userStats, TotalUsers = totalUsers,
              TotalTeams = totalTeams, ActiveUsers = activeUsers\<rparr>, s5))"
  by (simp add: GetStatistics_def)

theorem GetStatistics_first_failure_or_full_report_witness:
  "GetStatistics (exampleStats True) 0 =
     (Inl (Error ''failed to get total teams: connection refused''), 4) \<and>
   GetStatistics (exampleStats False) 0 =
     (Inr \<lparr>st_PRStats = \<lparr>TotalOpen = 1, TotalMerged = 0, TotalPRs = 1, AvgMergeTimeHours = 0\<rparr>,
           UserStats = [], TotalUsers = 4, TotalTeams = 1, ActiveUsers = 4\<rparr>, 5)"
proof -
  have f: "r_GetPRStats (exampleStats True) 0 =
      (Inr \<lparr>TotalOpen = 1, TotalMerged = 0, TotalPRs = 1, AvgMergeTimeHours = 0\<rparr>, 1) \<and>
    r_GetUserAssignmentStats (exampleStats True) 1 = (Inr [], 2) \<and>
    r_GetTotalUsers (exampleStats True) 2 = (Inr 4, 3) \<and>
    r_GetTotalTeams (exampleStats True) 3 = (Inl ''connection refused'', 4)"
    by (simp add: exampleStats_def)
  have s: "r_GetPRStats (exampleStats False) 0 =
      (Inr \<lparr>TotalOpen = 1, TotalMerged = 0, TotalPRs = 1, AvgMergeTimeHours = 0\<rparr>, 1) \<and>
    r_GetUserAssignmentStats (exampleStats False) 1 = (Inr [], 2) \<and>
    r_GetTotalUsers (exampleStats False) 2 = (Inr 4, 3) \<and>
    r_GetTotalTeams (exampleStats False) 3 = (Inr 1, 4) \<and>
    r_GetActiveUsers (exampleStats False) 4 = (Inr 4, 5)"
    by (simp add: exampleStats_def)
  note failing = GetStatistics_first_failure_or_full_report
    [THEN conjunct2, THEN conjunct2, THEN conjunct2, THEN conjunct1, THEN mp, OF f]
  note full = GetStatistics_first_failure_or_full_report
    [THEN conjunct2, THEN conjunct2, THEN conjunct2, THEN conjunct2, THEN conjunct2, THEN mp, OF s]
  from failing full show ?thesis by simp
qed

text \<open>
  C9. The call \<open>selectReviewers(members, authorID, 2)\<close> of \<open>CreatePR\<close> returns at most
  two reviewers, whatever the members, so \<open>ValidateReviewersCount\<close> never answers it
  with the error for more than two reviewers, and \<open>CreatePR\<close> on the SQL repository
  never returns that error.
\<close>

theorem at_most_two_reviewers_reach_validation:
  "(\<exists>reviewers g'. selectReviewers rnd members authorID 2 g = (Some reviewers, g') \<and>
      length reviewers \<le> 2 \<and>
      ValidateReviewersCount reviewers \<noteq> Some ''cannot assign more than 2 reviewers'') \<and>
   fst (CreatePR Repository rnd prID prName authorID (db, g)) \<noteq>
     Inl (Error ''validation error: cannot assign more than 2 reviewers'')"
proof
  from selectReviewers_two [of rnd members authorID g]
  obtain reviewers g' where sel: "selectReviewers rnd members authorID 2 g = (Some reviewers, g')"
    and len: "length reviewers \<le> 2" by blast
  from len have "ValidateReviewersCount reviewers \<noteq> Some ''cannot assign more than 2 reviewers''"
    by (simp add: ValidateReviewersCount_def)
  with sel len show "\<exists>reviewers g'. selectReviewers rnd members authorID 2 g = (Some reviewers, g') \<and>
      length reviewers \<le> 2 \<and>
      ValidateReviewersCount reviewers \<noteq> Some ''cannot assign more than 2 reviewers''"
    by blast
next
  have sel: "selectReviewers rnd ms authorID 2 g = (Some rs, g1) \<Longrightarrow>
      ValidateReviewersCount rs \<noteq> Some ''cannot assign more than 2 reviewers''" for ms rs g1
    using selectReviewers_two [of rnd ms authorID g] by (auto simp: ValidateReviewersCount_def)
  show "fst (CreatePR Repository rnd prID prName authorID (db, g)) \<noteq>
     Inl (Error ''validation error: cannot assign more than 2 reviewers'')"
    unfolding CreatePR_def Let_def
    by (auto simp: ValidatePullRequest_def ValidatePRStatus_def Repository_PRExists_def
          Repository_GetPRByID_def Repository_GetUserByID_def Repository_GetTeamMembers_def
        dest: sel split: option.splits prod.splits sum.splits if_splits list.splits)
qed

text \<open>
  C10. Given the nil UUID, \<open>MergePR\<close>, \<open>ReassignReviewer\<close> (for either id),
  \<open>GetUserReviews\<close> and \<open>SetUserActive\<close> return an error, leave the state of the
  repository as it is and make no call on it.
\<close>

theorem nil_uuid_rejected_before_any_call:
  "MergePR (Recording repo) now uuid_Nil (s, []) =
     (Inl (Error ''pull_request_id cannot be nil UUID''), s, []) \<and>
   ReassignReviewer (Recording repo) rnd uuid_Nil oldUserID ((s, []), g) =
     (Inl (Error ''IDs cannot be nil UUID''), (s, []), g) \<and>
   ReassignReviewer (Recording repo) rnd prID uuid_Nil ((s, []), g) =
     (Inl (Error ''IDs cannot be nil UUID''), (s, []), g) \<and>
   GetUserReviews (Recording repo) uuid_Nil (s, []) =
     (Inl (Error ''user_id cannot be nil UUID''), s, []) \<and>
   SetUserActive (Recording repo) uuid_Nil isActive (s, []) =
     (Inl (Error ''user_id cannot be nil UUID''), s, [])"
  by (simp add: MergePR_def ReassignReviewer_def GetUserReviews_def SetUserActive_def)

end
